theory Spec2Isabelle
  imports Main "HOL-Library.Sublist" "HOL-Library.AList"
begin

section \<open>Python values and exceptions\<close>

text \<open>
  The values that reach the handlers: an event parsed from JSON, the fields of a request
  body, the values of a secret. Dictionaries are association lists in insertion order,
  looked up with \<open>map_of\<close>. Floats are left out.
\<close>

datatype pyval =
    PNone
  | PBool bool
  | PInt int
  | PStr string
  | PList "pyval list"
  | PDict "(string \<times> pyval) list"

text \<open>
  Every exception the two modules and the library calls they make can raise. All of
  these classes derive from \<open>Exception\<close>, so \<open>except Exception\<close> catches each of them
  (\<open>DecodeError\<close> stands for what \<open>b64decode\<close> and \<open>decode\<close> raise, \<open>OtherError\<close> for
  any further class an outside call may raise). The string is \<open>str(e)\<close>. Texts produced
  by the interpreter or a library are shortened.
\<close>

datatype exn_class =
    AttributeError | TypeError | KeyError | ValueError | JSONDecodeError
  | RuntimeError | ClientError | FileExistsError | FileNotFoundError
  | IsADirectoryError | NotADirectoryError | TimeoutExpired | ReadError
  | BadZipFile | DecodeError | OtherError

datatype exn = Exn exn_class string

fun exn_class_of :: "exn \<Rightarrow> exn_class" where
  "exn_class_of (Exn c m) = c"

fun str_exn :: "exn \<Rightarrow> string" where
  "str_exn (Exn c m) = m"

text \<open>Truthiness, as \<open>not v\<close> and \<open>all([...])\<close> read it.\<close>

fun truthy :: "pyval \<Rightarrow> bool" where
  "truthy PNone = False"
| "truthy (PBool b) = b"
| "truthy (PInt i) = (i \<noteq> 0)"
| "truthy (PStr s) = (s \<noteq> [])"
| "truthy (PList xs) = (xs \<noteq> [])"
| "truthy (PDict d) = (d \<noteq> [])"

text \<open>\<open>b.get(k, dflt)\<close>: only a dict has \<open>get\<close>.\<close>

fun py_get :: "pyval \<Rightarrow> string \<Rightarrow> pyval \<Rightarrow> exn + pyval" where
  "py_get (PDict d) k dflt = Inr (case map_of d k of None \<Rightarrow> dflt | Some v \<Rightarrow> v)"
| "py_get v k dflt = Inl (Exn AttributeError ''object has no attribute get'')"

text \<open>\<open>d[k]\<close>: \<open>KeyError\<close> on a dict without the key, \<open>TypeError\<close> on any other value
  (a list or a string wants an integer index, the rest is not subscriptable).\<close>

definition quoted :: "string \<Rightarrow> string" where
  "quoted s = [CHR 0x27] @ s @ [CHR 0x27]"

fun py_item :: "pyval \<Rightarrow> string \<Rightarrow> exn + pyval" where
  "py_item (PDict d) k =
     (case map_of d k of None \<Rightarrow> Inl (Exn KeyError (quoted k)) | Some v \<Rightarrow> Inr v)"
| "py_item v k = Inl (Exn TypeError ''object is not subscriptable by a string'')"

section \<open>Python strings\<close>

text \<open>
  Strings are lists of 8-bit characters: the case mappings below are those of ASCII, which
  is what \<open>str.lower\<close> and \<open>str.upper\<close> do on ASCII text.
\<close>

definition lower_char :: "char \<Rightarrow> char" where
  "lower_char c =
     (let n = (of_char c :: nat) in if 65 \<le> n \<and> n \<le> 90 then char_of (n + 32) else c)"

definition upper_char :: "char \<Rightarrow> char" where
  "upper_char c =
     (let n = (of_char c :: nat) in if 97 \<le> n \<and> n \<le> 122 then char_of (n - 32) else c)"

definition str_lower :: "string \<Rightarrow> string" where
  "str_lower s = map lower_char s"

definition str_upper :: "string \<Rightarrow> string" where
  "str_upper s = map upper_char s"

text \<open>\<open>v.lower()\<close> and \<open>v.upper()\<close> on a value: only a string has them.\<close>

fun py_lower :: "pyval \<Rightarrow> exn + string" where
  "py_lower (PStr s) = Inr (str_lower s)"
| "py_lower v = Inl (Exn AttributeError ''object has no attribute lower'')"

fun py_upper :: "pyval \<Rightarrow> exn + string" where
  "py_upper (PStr s) = Inr (str_upper s)"
| "py_upper v = Inl (Exn AttributeError ''object has no attribute upper'')"



text \<open>
  The slice \<open>s[-n:]\<close> of \<open>result.stdout[-20000:]\<close>, \<open>result["stdout"][-2000:]\<close> and
  \<open>result["stderr"][-4000:]\<close>: the trailing \<open>n\<close> characters, the whole string when it
  is shorter. With \<open>n = 0\<close> the slice is \<open>s[0:]\<close>, the whole string.
\<close>

definition last_chars :: "nat \<Rightarrow> string \<Rightarrow> string" where
  "last_chars n s = (if n = 0 then s else drop (length s - n) s)"

text \<open>\<open>s.strip()\<close>: the characters \<open>str.isspace\<close> accepts, in the 8-bit range.\<close>

definition py_isspace :: "char \<Rightarrow> bool" where
  "py_isspace c =
     (let n = (of_char c :: nat)
      in (9 \<le> n \<and> n \<le> 13) \<or> (28 \<le> n \<and> n \<le> 32) \<or> n = 133 \<or> n = 160)"

definition py_strip :: "string \<Rightarrow> string" where
  "py_strip s = rev (dropWhile py_isspace (rev (dropWhile py_isspace s)))"

text \<open>\<open>name.split('/')\<close>: the pieces between the separators, empty pieces included.\<close>

fun split_on :: "char \<Rightarrow> string \<Rightarrow> string list" where
  "split_on c [] = [[]]"
| "split_on c (x # xs) =
     (if x = c then [] # split_on c xs
      else (case split_on c xs of [] \<Rightarrow> [[x]] | p # ps \<Rightarrow> (x # p) # ps))"

definition nl :: string where
  "nl = [CHR 0x0A]"

section \<open>The file system\<close>

text \<open>
  A path is its list of components from the root; \<open>os.path.join(d, "ansible")\<close> is
  \<open>d @ [''ansible'']\<close>. The file system maps a path to what is there: a directory, or a
  file with its content and mode. Every path is read from the root, and there are no
  symbolic links. Each operation below fails where the system call fails for what is
  at the path; failures of the medium (a full disk, a missing permission) are left
  out.
\<close>

type_synonym path = "string list"

datatype node = Dir | File string nat

type_synonym filesys = "path \<Rightarrow> node option"

fun is_file :: "node option \<Rightarrow> bool" where
  "is_file (Some (File c m)) = True"
| "is_file x = False"

definition path_str :: "path \<Rightarrow> string" where
  "path_str p = concat (map (\<lambda>c. CHR ''/'' # c) p)"

text \<open>
  How the system resolves further components from a directory: an empty component and
  \<open>.\<close> stay, \<open>..\<close> climbs to the parent.
\<close>

fun walk :: "path \<Rightarrow> string list \<Rightarrow> path" where
  "walk base [] = base"
| "walk base (c # cs) =
     walk (if c = [] \<or> c = ''.'' then base
           else if c = ''..'' then butlast base
           else base @ [c]) cs"

text \<open>\<open>os.makedirs(p, exist_ok=True)\<close>.\<close>

definition makedirs :: "path \<Rightarrow> filesys \<Rightarrow> exn + filesys" where
  "makedirs p f =
     (if is_file (f p) then Inl (Exn FileExistsError (path_str p))
      else if list_ex (\<lambda>q. is_file (f q)) (prefixes p)
      then Inl (Exn NotADirectoryError (path_str p))
      else Inr (\<lambda>q. if prefix q p \<and> f q = None then Some Dir else f q))"

text \<open>\<open>os.mkdir(p)\<close>.\<close>

definition mkdir :: "path \<Rightarrow> filesys \<Rightarrow> exn + filesys" where
  "mkdir p f =
     (if f p \<noteq> None then Inl (Exn FileExistsError (path_str p))
      else if f (butlast p) \<noteq> Some Dir then Inl (Exn FileNotFoundError (path_str p))
      else Inr (f(p \<mapsto> Dir)))"

text \<open>
  \<open>open(p, "w").write(c)\<close>: the parent must be a directory and \<open>p\<close> must not be one. A
  new file gets mode \<open>0o644\<close>, an existing one keeps its mode.
\<close>

definition write_file :: "path \<Rightarrow> string \<Rightarrow> filesys \<Rightarrow> exn + filesys" where
  "write_file p c f =
     (if p = [] \<or> f p = Some Dir then Inl (Exn IsADirectoryError (path_str p))
      else if f (butlast p) \<noteq> Some Dir then Inl (Exn FileNotFoundError (path_str p))
      else Inr (f(p \<mapsto> File c (case f p of Some (File c0 m) \<Rightarrow> m | _ \<Rightarrow> 420))))"

text \<open>\<open>os.chmod(p, m)\<close>; the mode of a directory is not recorded.\<close>

definition chmod :: "path \<Rightarrow> nat \<Rightarrow> filesys \<Rightarrow> exn + filesys" where
  "chmod p m f =
     (case f p of
        None \<Rightarrow> Inl (Exn FileNotFoundError (path_str p))
      | Some Dir \<Rightarrow> Inr f
      | Some (File c m0) \<Rightarrow> Inr (f(p \<mapsto> File c m)))"

text \<open>
  \<open>shutil.copytree(src, dst)\<close>: \<open>dst\<close> must not exist; its missing parents are made;
  what is under \<open>src\<close> appears under \<open>dst\<close>.
\<close>

definition copytree :: "path \<Rightarrow> path \<Rightarrow> filesys \<Rightarrow> exn + filesys" where
  "copytree src dst f =
     (if f src \<noteq> Some Dir then Inl (Exn NotADirectoryError (path_str src))
      else if f dst \<noteq> None then Inl (Exn FileExistsError (path_str dst))
      else (case makedirs (butlast dst) f of
              Inl e \<Rightarrow> Inl e
            | Inr f' \<Rightarrow>
                Inr (\<lambda>q. if prefix dst q then f (src @ drop (length dst) q) else f' q)))"

text \<open>
  \<open>shutil.rmtree(p)\<close>: \<open>p\<close> and everything under it is gone. A removal that fails is
  outside the model.
\<close>

definition rmtree :: "path \<Rightarrow> filesys \<Rightarrow> filesys" where
  "rmtree p f = (\<lambda>q. if prefix p q then None else f q)"

section \<open>The environment of a run\<close>

text \<open>
  What a run reads from outside the two modules: the secret store, the parameter store,
  the object store, the process environment, the library functions whose results are
  not computed here (\<open>json.loads\<close>, \<open>base64.b64decode(...).decode()\<close>, \<open>repr\<close>, the
  reading of a zip file's directory) and the external tool. The tool is opaque: it ends
  with an exit status and its captured output, or runs into the timeout of
  \<open>subprocess.run\<close>, or cannot be started. What the tool itself does to the file system
  is outside the model.
\<close>

record secret_value =
  SecretString :: "string option"
  SecretBinary :: "string option"

datatype proc_outcome =
    Exited int string string
  | TimedOut
  | LaunchFailed exn

record env =
  json_loads :: "string \<Rightarrow> exn + pyval"
  b64decode_utf8 :: "string \<Rightarrow> exn + string"
  py_repr :: "pyval \<Rightarrow> string"
  environ :: "(string \<times> string) list"
  module_dir :: path
  home_dir :: path
  tmp_dir :: path
  tmp_name :: string
  get_secret_value :: "string \<Rightarrow> exn + secret_value"
  get_parameter :: "string \<Rightarrow> bool \<Rightarrow> exn + string"
  boto3_client :: "string \<Rightarrow> exn option"
  s3_download :: "pyval \<Rightarrow> pyval \<Rightarrow> exn + string"
  zip_entries :: "string \<Rightarrow> exn + (string \<times> string) list"
  run_process :: "string list \<Rightarrow> path \<Rightarrow> (string \<times> string) list \<Rightarrow> proc_outcome"

text \<open>
  The state a run changes: the file system and the working directory of the process.
  Three logs are kept beside them, as a test double would: the identifiers asked of the
  secret store, the directories \<open>mkdtemp\<close> returned, and the paths key material was
  written to. \<open>deployer\<close> is the local variable of that name in
  \<open>deployment_lambda.lambda_handler\<close>: \<open>None\<close> until the object is made, then its
  \<open>work_dir\<close> attribute.
\<close>

record world =
  files :: filesys
  cwd :: path
  secret_calls :: "string list"
  workspaces :: "path list"
  key_writes :: "path list"
  deployer :: "path option option"

text \<open>A step either returns a value or raises; either way it leaves a state behind.\<close>

type_synonym 'a io = "world \<Rightarrow> (exn + 'a) \<times> world"

definition io_return :: "'a \<Rightarrow> 'a io" where
  "io_return a = (\<lambda>w. (Inr a, w))"

definition io_raise :: "exn \<Rightarrow> 'a io" where
  "io_raise e = (\<lambda>w. (Inl e, w))"

definition io_bind :: "'a io \<Rightarrow> ('a \<Rightarrow> 'b io) \<Rightarrow> 'b io" where
  "io_bind m k = (\<lambda>w. case m w of (Inl e, w') \<Rightarrow> (Inl e, w') | (Inr a, w') \<Rightarrow> k a w')"

definition io_lift :: "exn + 'a \<Rightarrow> 'a io" where
  "io_lift r = (\<lambda>w. (r, w))"

definition io_get :: "(world \<Rightarrow> 'a) \<Rightarrow> 'a io" where
  "io_get g = (\<lambda>w. (Inr (g w), w))"

definition io_modify :: "(world \<Rightarrow> world) \<Rightarrow> unit io" where
  "io_modify g = (\<lambda>w. (Inr (), g w))"

text \<open>\<open>try: m except Exception as e: h(e)\<close>.\<close>

definition try_except :: "'a io \<Rightarrow> (exn \<Rightarrow> 'a io) \<Rightarrow> 'a io" where
  "try_except m h = (\<lambda>w. case m w of (Inl e, w') \<Rightarrow> h e w' | (Inr a, w') \<Rightarrow> (Inr a, w'))"

text \<open>
  \<open>try: m finally: c\<close>: \<open>c\<close> runs after \<open>m\<close> however \<open>m\<close> ends; the outcome is that of
  \<open>m\<close>, unless \<open>c\<close> itself raises.
\<close>

definition try_finally :: "'a io \<Rightarrow> unit io \<Rightarrow> 'a io" where
  "try_finally m c =
     (\<lambda>w. case m w of (r, w') \<Rightarrow> (case c w' of (Inl e, w'') \<Rightarrow> (Inl e, w'') | (Inr u, w'') \<Rightarrow> (r, w'')))"

text \<open>A file-system operation as a step.\<close>

definition fs_update :: "(filesys \<Rightarrow> exn + filesys) \<Rightarrow> unit io" where
  "fs_update opn =
     (\<lambda>w. case opn (files w) of Inl e \<Rightarrow> (Inl e, w) | Inr f \<Rightarrow> (Inr (), w\<lparr>files := f\<rparr>))"

text \<open>
  \<open>tempfile.mkdtemp(prefix=...)\<close>: a new directory under the temporary directory, named
  by the prefix and a random part. \<open>tmp_name\<close> is the random part of the name it settles
  on; when even that name is taken it gives up with \<open>FileExistsError\<close>.
\<close>

definition mkdtemp :: "env \<Rightarrow> string \<Rightarrow> path io" where
  "mkdtemp E pre =
     (let d = tmp_dir E @ [pre @ tmp_name E]
      in io_bind (fs_update (mkdir d))
           (\<lambda>u. io_bind (io_modify (\<lambda>w. w\<lparr>workspaces := workspaces w @ [d]\<rparr>))
             (\<lambda>u. io_return d)))"

text \<open>\<open>os.getcwd()\<close> and \<open>os.chdir(p)\<close>.\<close>

definition getcwd :: "path io" where
  "getcwd =
     (\<lambda>w. if files w (cwd w) = Some Dir then (Inr (cwd w), w)
          else (Inl (Exn FileNotFoundError ''getcwd''), w))"

definition chdir :: "path \<Rightarrow> unit io" where
  "chdir p =
     (\<lambda>w. if files w p = Some Dir then (Inr (), w\<lparr>cwd := p\<rparr>)
          else (Inl (Exn FileNotFoundError (path_str p)), w))"

text \<open>
  \<open>f"{v}"\<close>: a string is itself, \<open>None\<close> is \<open>None\<close>, a boolean is \<open>True\<close> or \<open>False\<close>;
  for a number, a list or a dict \<open>str\<close> is \<open>repr\<close>.
\<close>

definition format_value :: "env \<Rightarrow> pyval \<Rightarrow> string" where
  "format_value E v =
     (case v of
        PStr s \<Rightarrow> s
      | PNone \<Rightarrow> ''None''
      | PBool b \<Rightarrow> (if b then ''True'' else ''False'')
      | _ \<Rightarrow> py_repr E v)"

text \<open>\<open>os.getenv(k)\<close> as a value: \<open>None\<close> when the variable is not set.\<close>

definition getenv :: "env \<Rightarrow> string \<Rightarrow> pyval" where
  "getenv E k = (case map_of (environ E) k of None \<Rightarrow> PNone | Some v \<Rightarrow> PStr v)"

definition getenv_default :: "env \<Rightarrow> string \<Rightarrow> string \<Rightarrow> pyval" where
  "getenv_default E k d = (case map_of (environ E) k of None \<Rightarrow> PStr d | Some v \<Rightarrow> PStr v)"

text \<open>\<open>json.loads(v)\<close> on a value: only a string is parsed.\<close>

fun json_loads_val :: "env \<Rightarrow> pyval \<Rightarrow> exn + pyval" where
  "json_loads_val E (PStr s) = json_loads E s"
| "json_loads_val E v = Inl (Exn TypeError ''the JSON object must be str, bytes or bytearray'')"

text \<open>What a handler returns: the status and the dictionary handed to \<open>json.dumps\<close>.\<close>

record response =
  statusCode :: int
  body :: "(string \<times> pyval) list"

text \<open>The dictionary an executor returns.\<close>

record exec_result =
  returncode :: int
  stdout :: string
  stderr :: string
  success :: bool

text \<open>The flags both executors pass before the extra variables.\<close>

definition ssh_common_args :: string where
  "ssh_common_args =
     ''-o StrictHostKeyChecking=no -o UserKnownHostsFile=/dev/null -o IdentitiesOnly=yes''"

definition timeout_text :: "env \<Rightarrow> string list \<Rightarrow> string" where
  "timeout_text E cmd =
     ''Command '' @ quoted (py_repr E (PList (map PStr cmd))) @ '' timed out after 900 seconds''"

section \<open>Library calls on archives\<close>

text \<open>
  The two calls are Python's standard library, not code of the repository; they are
  written out here as CPython has them.

  \<open>shutil.unpack_archive(bundle, d)\<close> on a zip file (\<open>shutil._unpack_zipfile\<close>): an
  entry whose name starts with \<open>/\<close> or contains \<open>..\<close> is passed over; for every other
  entry the directory of its target is made, and the entry is written unless its name
  ends with \<open>/\<close>.
\<close>

fun unpack_entries :: "path \<Rightarrow> (string \<times> string) list \<Rightarrow> unit io" where
  "unpack_entries d [] = io_return ()"
| "unpack_entries d ((name, dat) # rest) =
     (if prefix ''/'' name \<or> sublist ''..'' name then unpack_entries d rest
      else io_bind (fs_update (makedirs (walk d (butlast (split_on CHR ''/'' name)))))
             (\<lambda>u. if suffix ''/'' name then unpack_entries d rest
                  else io_bind (fs_update (write_file (walk d (split_on CHR ''/'' name)) dat))
                         (\<lambda>u. unpack_entries d rest)))"

definition unpack_archive :: "env \<Rightarrow> path \<Rightarrow> path \<Rightarrow> unit io" where
  "unpack_archive E filename extract_dir =
     io_bind (io_get (\<lambda>w. files w filename))
       (\<lambda>n. case n of
               Some (File c m) \<Rightarrow> io_bind (io_lift (zip_entries E c)) (unpack_entries extract_dir)
             | _ \<Rightarrow> io_raise (Exn ReadError (path_str filename)))"

text \<open>
  \<open>ZipFile.extractall(d)\<close> (\<open>ZipFile._extract_member\<close> for each entry): the empty
  components and the components \<open>.\<close> and \<open>..\<close> of an entry's name are dropped, the rest
  is joined to \<open>d\<close>; the parent of the target is made; an entry whose name ends with
  \<open>/\<close> becomes a directory, any other a file.
\<close>

definition arcname :: "string \<Rightarrow> string list" where
  "arcname name = filter (\<lambda>x. x \<noteq> [] \<and> x \<noteq> ''.'' \<and> x \<noteq> ''..'') (split_on CHR ''/'' name)"

fun extract_members :: "path \<Rightarrow> (string \<times> string) list \<Rightarrow> unit io" where
  "extract_members d [] = io_return ()"
| "extract_members d ((name, dat) # rest) =
     io_bind (fs_update (makedirs (butlast (d @ arcname name))))
       (\<lambda>u. io_bind
               (if suffix ''/'' name
                then io_bind (io_get (\<lambda>w. files w (d @ arcname name)))
                       (\<lambda>n. if n = Some Dir then io_return ()
                            else fs_update (mkdir (d @ arcname name)))
                else fs_update (write_file (d @ arcname name) dat))
               (\<lambda>u. extract_members d rest))"

definition extractall :: "env \<Rightarrow> path \<Rightarrow> path \<Rightarrow> unit io" where
  "extractall E package_path d =
     io_bind (io_get (\<lambda>w. files w package_path))
       (\<lambda>n. case n of
               Some (File c m) \<Rightarrow> io_bind (io_lift (zip_entries E c)) (extract_members d)
             | _ \<Rightarrow> io_raise (Exn FileNotFoundError (path_str package_path)))"

section \<open>ansible\_lambda.py\<close>

text \<open>\<open>_copy_embedded_ansible(work_dir)\<close>, lines 11 to 27.\<close>

definition copy_embedded_ansible :: "env \<Rightarrow> path \<Rightarrow> path io" where
  "copy_embedded_ansible E work_dir =
     (let base_dir = module_dir E;
          embedded_dir = base_dir @ [''ansible''];
          bundle = base_dir @ [''ansible_bundle.zip''];
          target = work_dir @ [''ansible'']
      in io_bind (io_get (\<lambda>w. (files w embedded_dir = Some Dir, is_file (files w bundle))))
           (\<lambda>(isdir, isfile).
              if isdir then io_bind (fs_update (copytree embedded_dir target)) (\<lambda>u. io_return target)
              else if isfile
              then io_bind (unpack_archive E bundle work_dir)
                     (\<lambda>u. io_bind (io_get (\<lambda>w. files w target = Some Dir))
                       (\<lambda>ok. if \<not> ok
                             then io_raise (Exn RuntimeError ''ansible directory missing after unzip'')
                             else io_return target))
              else io_raise
                     (Exn RuntimeError ''No embedded ansible (directory or zip) found in package'')))"

text \<open>\<open>SECRETS_CLIENT.get_secret_value(SecretId=secret_id)\<close>, with the call logged.\<close>

definition secrets_get :: "env \<Rightarrow> string \<Rightarrow> secret_value io" where
  "secrets_get E secret_id =
     io_bind (io_modify (\<lambda>w. w\<lparr>secret_calls := secret_calls w @ [secret_id]\<rparr>))
       (\<lambda>u. io_lift (get_secret_value E secret_id))"

text \<open>\<open>_get_json_secret(secret_id)\<close>, lines 29 to 33.\<close>

definition get_json_secret :: "env \<Rightarrow> string \<Rightarrow> pyval io" where
  "get_json_secret E secret_id =
     io_bind (secrets_get E secret_id)
       (\<lambda>resp. case SecretString resp of
                  Some s \<Rightarrow> io_lift (json_loads E s)
                | None \<Rightarrow>
                    (case SecretBinary resp of
                       None \<Rightarrow> io_raise (Exn KeyError (quoted ''SecretBinary''))
                     | Some b \<Rightarrow>
                         io_bind (io_lift (b64decode_utf8 E b)) (\<lambda>t. io_lift (json_loads E t))))"

text \<open>
  The key material of line 37:
  \<open>key_secret.get('SecretString') or base64.b64decode(key_secret['SecretBinary']).decode()\<close>.
\<close>

definition key_material_of :: "env \<Rightarrow> secret_value \<Rightarrow> exn + string" where
  "key_material_of E key_secret =
     (case SecretString key_secret of
        Some s \<Rightarrow>
          if s \<noteq> [] then Inr s
          else (case SecretBinary key_secret of
                  None \<Rightarrow> Inl (Exn KeyError (quoted ''SecretBinary''))
                | Some b \<Rightarrow> b64decode_utf8 E b)
      | None \<Rightarrow>
          (case SecretBinary key_secret of
             None \<Rightarrow> Inl (Exn KeyError (quoted ''SecretBinary''))
           | Some b \<Rightarrow> b64decode_utf8 E b))"

text \<open>\<open>_write_ssh_key(work_dir, secret_id)\<close>, lines 35 to 43.\<close>

definition write_ssh_key :: "env \<Rightarrow> path \<Rightarrow> string \<Rightarrow> path io" where
  "write_ssh_key E work_dir secret_id =
     io_bind (secrets_get E secret_id)
       (\<lambda>key_secret. io_bind (io_lift (key_material_of E key_secret))
         (\<lambda>key_material.
            let key_path = work_dir @ [''id_rsa'']
            in io_bind (fs_update (write_file key_path (py_strip key_material @ nl)))
                 (\<lambda>u. io_bind (io_modify (\<lambda>w. w\<lparr>key_writes := key_writes w @ [key_path]\<rparr>))
                   (\<lambda>u. io_bind (fs_update (chmod key_path 384))
                     (\<lambda>u. io_return key_path)))))"

text \<open>\<open>_create_inventory(ansible_dir, host, user, site)\<close>, lines 45 to 56.\<close>

definition inventory_content :: "env \<Rightarrow> pyval \<Rightarrow> pyval \<Rightarrow> string \<Rightarrow> string" where
  "inventory_content E host user site =
     ''[vm]'' @ nl @
     format_value E host @ '' ansible_user='' @ format_value E user @
       '' ansible_connection=ssh ansible_python_interpreter=/usr/libexec/platform-python'' @ nl @
     nl @
     ''[vm:vars]'' @ nl @
     ''site='' @ site @ nl @
     ''ansible_ssh_common_args='' @ ssh_common_args @ nl"

definition create_inventory :: "env \<Rightarrow> path \<Rightarrow> pyval \<Rightarrow> pyval \<Rightarrow> string \<Rightarrow> path io" where
  "create_inventory E ansible_dir host user site =
     (let hosts_path = ansible_dir @ [''hosts'']
      in io_bind (fs_update (write_file hosts_path (inventory_content E host user site)))
           (\<lambda>u. io_return hosts_path))"

text \<open>The loop of lines 63 to 67: a \<open>None\<close> value is passed over.\<close>

fun extra_args :: "env \<Rightarrow> (string \<times> pyval) list \<Rightarrow> string list" where
  "extra_args E [] = []"
| "extra_args E ((k, v) # rest) =
     (if v = PNone then extra_args E rest
      else [''-e'', k @ ''='' @ format_value E v] @ extra_args E rest)"

text \<open>The command of lines 69 to 75.\<close>

definition playbook_cmd :: "env \<Rightarrow> path \<Rightarrow> (string \<times> pyval) list \<Rightarrow> string list" where
  "playbook_cmd E ansible_dir extra =
     [''ansible-playbook'',
      ''-i'', path_str (ansible_dir @ [''hosts'']),
      ''main.yml'',
      ''--ssh-common-args'', ssh_common_args,
      ''-vv''] @ extra_args E extra"

text \<open>The environment of the subprocess, lines 59 to 61.\<close>

definition playbook_env :: "env \<Rightarrow> (string \<times> string) list" where
  "playbook_env E =
     (let env1 = AList.update ''ANSIBLE_HOST_KEY_CHECKING'' ''False'' (environ E)
      in AList.update ''ANSIBLE_STDOUT_CALLBACK''
           (case map_of env1 ''ANSIBLE_STDOUT_CALLBACK'' of None \<Rightarrow> ''yaml'' | Some v \<Rightarrow> v)
           env1)"

text \<open>
  \<open>_run_playbook(ansible_dir, extra, ssh_key_path)\<close>, lines 58 to 84. There is no
  \<open>try\<close> in it: what \<open>subprocess.run\<close> raises leaves the function.
\<close>

definition run_playbook :: "env \<Rightarrow> path \<Rightarrow> (string \<times> pyval) list \<Rightarrow> path \<Rightarrow> exec_result io" where
  "run_playbook E ansible_dir extra ssh_key_path =
     (let cmd = playbook_cmd E ansible_dir extra
      in case run_process E cmd ansible_dir (playbook_env E) of
           Exited rc out err \<Rightarrow>
             io_return \<lparr>returncode = rc, stdout = last_chars 20000 out,
                        stderr = last_chars 20000 err, success = (rc = 0)\<rparr>
         | TimedOut \<Rightarrow> io_raise (Exn TimeoutExpired (timeout_text E cmd))
         | LaunchFailed e \<Rightarrow> io_raise e)"

text \<open>The request body of line 88.\<close>

definition ansible_request_body :: "env \<Rightarrow> pyval \<Rightarrow> exn + pyval" where
  "ansible_request_body E event =
     (case event of
        PDict d \<Rightarrow>
          (case map_of d ''body'' of
             Some b \<Rightarrow> json_loads_val E b
           | None \<Rightarrow> Inr event)
      | _ \<Rightarrow> Inr event)"

text \<open>The body of the inner \<open>try\<close>, lines 112 to 150.\<close>

definition ansible_in_workspace ::
  "env \<Rightarrow> path \<Rightarrow> pyval \<Rightarrow> pyval \<Rightarrow> string \<Rightarrow> pyval \<Rightarrow> pyval \<Rightarrow> pyval \<Rightarrow> pyval \<Rightarrow> pyval \<Rightarrow> pyval
     \<Rightarrow> response io" where
  "ansible_in_workspace E work_dir service_name jar_timestamp site app_user vm_host vm_user
       datasource_url db_username db_password =
     io_bind (copy_embedded_ansible E work_dir)
       (\<lambda>ansible_dir. io_bind (write_ssh_key E work_dir ''demoapp/vm/ssh-key'')
         (\<lambda>ssh_key_path. io_bind (create_inventory E ansible_dir vm_host vm_user site)
           (\<lambda>hosts_path.
              let extra_vars =
                    [(''service_name'', service_name),
                     (''jar_timestamp'', jar_timestamp),
                     (''aws_s3_bucket_repository'', getenv E ''AWS_S3_BUCKET_REPOSITORY''),
                     (''aws_access_key_id'', getenv_default E ''AWS_ACCESS_KEY_ID'' []),
                     (''aws_secret_access_key'', getenv_default E ''AWS_SECRET_ACCESS_KEY'' []),
                     (''aws_default_region'', getenv_default E ''AWS_DEFAULT_REGION'' ''us-east-1''),
                     (''site'', PStr site),
                     (''app_user'', app_user),
                     (''datasource_url'', datasource_url),
                     (''db_username'', db_username),
                     (''db_password'', db_password)]
              in io_bind (run_playbook E ansible_dir extra_vars ssh_key_path)
                   (\<lambda>result.
                      if success result
                      then io_return
                             \<lparr>statusCode = 200,
                              body = [(''message'', PStr ''Deployment succeeded''),
                                      (''service_name'', service_name),
                                      (''timestamp'', jar_timestamp),
                                      (''site'', PStr site),
                                      (''target_vm'', vm_host),
                                      (''ansible_stdout_tail'',
                                         PStr (last_chars 2000 (stdout result)))]\<rparr>
                      else io_return
                             \<lparr>statusCode = 500,
                              body = [(''error'', PStr ''Deployment failed''),
                                      (''stderr_tail'', PStr (last_chars 4000 (stderr result))),
                                      (''stdout_tail'',
                                         PStr (last_chars 4000 (stdout result)))]\<rparr>))))"

text \<open>
  Lines 103 to 152: the site's record is read from the secret store, the workspace is
  made, and the inner \<open>try\<close> runs with \<open>shutil.rmtree(work_dir, ignore_errors=True)\<close>
  as its \<open>finally\<close>.
\<close>

definition ansible_deploy ::
  "env \<Rightarrow> pyval \<Rightarrow> pyval \<Rightarrow> string \<Rightarrow> pyval \<Rightarrow> response io" where
  "ansible_deploy E service_name jar_timestamp site app_user =
     io_bind (get_json_secret E (''demoapp/vm/'' @ site))
       (\<lambda>vm_data. io_bind (io_lift (py_item vm_data ''VM_HOSTNAME''))
         (\<lambda>vm_host. io_bind (io_lift (py_item vm_data ''VM_USERNAME''))
           (\<lambda>vm_user. io_bind (io_lift (py_get vm_data ''DATASOURCE_URL'' (PStr [])))
             (\<lambda>datasource_url. io_bind (io_lift (py_get vm_data ''DB_USERNAME'' (PStr [])))
               (\<lambda>db_username. io_bind (io_lift (py_get vm_data ''DB_PASSWORD'' (PStr [])))
                 (\<lambda>db_password. io_bind (mkdtemp E ''ansible_exec_'')
                   (\<lambda>work_dir.
                      try_finally
                        (ansible_in_workspace E work_dir service_name jar_timestamp site
                           app_user vm_host vm_user datasource_url db_username db_password)
                        (io_modify (\<lambda>w. w\<lparr>files := rmtree work_dir (files w)\<rparr>)))))))))"

text \<open>\<open>lambda_handler(event, context)\<close> of ansible\_lambda.py, lines 86 to 155.\<close>

definition ansible_lambda_handler :: "env \<Rightarrow> pyval \<Rightarrow> response io" where
  "ansible_lambda_handler E event =
     try_except
       (io_bind (io_lift (ansible_request_body E event))
         (\<lambda>payload. io_bind (io_lift (py_get payload ''service_name'' PNone))
           (\<lambda>service_name. io_bind (io_lift (py_get payload ''jar_timestamp'' PNone))
             (\<lambda>jar_timestamp. io_bind (io_lift (py_get payload ''site'' (PStr ''sit1'')))
               (\<lambda>site_value. io_bind (io_lift (py_lower site_value))
                 (\<lambda>site. io_bind (io_lift (py_get payload ''app_user'' (PStr ''appadm'')))
                   (\<lambda>app_user.
                      if \<not> truthy service_name \<or> \<not> truthy jar_timestamp
                      then io_return
                             \<lparr>statusCode = 400,
                              body = [(''error'',
                                       PStr ''service_name and jar_timestamp required'')]\<rparr>
                      else ansible_deploy E service_name jar_timestamp site app_user)))))))
       (\<lambda>e. io_return \<lparr>statusCode = 500, body = [(''error'', PStr (str_exn e))]\<rparr>)"

section \<open>deployment\_lambda.py\<close>

text \<open>
  \<open>AnsibleDeploymentLambda()\<close>, lines 20 to 23: the two clients are made, \<open>work_dir\<close> is
  \<open>None\<close>.
\<close>

definition new_deployer :: "env \<Rightarrow> unit io" where
  "new_deployer E =
     (case boto3_client E ''s3'' of
        Some e \<Rightarrow> io_raise e
      | None \<Rightarrow>
          (case boto3_client E ''ssm'' of
             Some e \<Rightarrow> io_raise e
           | None \<Rightarrow> io_modify (\<lambda>w. w\<lparr>deployer := Some None\<rparr>)))"

text \<open>
  \<open>get_secret_parameter(parameter_name, decrypt)\<close>, lines 25 to 35, with the call
  logged; what the client raises is raised again.
\<close>

definition get_secret_parameter :: "env \<Rightarrow> string \<Rightarrow> bool \<Rightarrow> string io" where
  "get_secret_parameter E parameter_name decrypt =
     io_bind (io_modify (\<lambda>w. w\<lparr>secret_calls := secret_calls w @ [parameter_name]\<rparr>))
       (\<lambda>u. io_lift (get_parameter E parameter_name decrypt))"

text \<open>\<open>setup_work_directory()\<close>, lines 37 to 41.\<close>

definition setup_work_directory :: "env \<Rightarrow> path io" where
  "setup_work_directory E =
     io_bind (mkdtemp E ''ansible_deploy_'')
       (\<lambda>d. io_bind (io_modify (\<lambda>w. w\<lparr>deployer := Some (Some d)\<rparr>)) (\<lambda>u. io_return d))"

text \<open>
  \<open>download_ansible_package(ansible_s3_bucket, ansible_s3_key)\<close>, lines 43 to 61; the
  \<open>except\<close> raises again what was raised.
\<close>

definition download_ansible_package :: "env \<Rightarrow> path \<Rightarrow> pyval \<Rightarrow> pyval \<Rightarrow> path io" where
  "download_ansible_package E work_dir ansible_s3_bucket ansible_s3_key =
     (let package_path = work_dir @ [''ansible-package.zip'']
      in io_bind (io_lift (s3_download E ansible_s3_bucket ansible_s3_key))
           (\<lambda>dat. io_bind (fs_update (write_file package_path dat))
             (\<lambda>u. let ansible_dir = work_dir @ [''ansible'']
                  in io_bind (extractall E package_path ansible_dir)
                       (\<lambda>u. io_return ansible_dir))))"

text \<open>\<open>create_inventory_file(ansible_dir, vm_hostname, vm_username, site)\<close>, lines 63 to 78.\<close>

definition inventory_file_content :: "string \<Rightarrow> string \<Rightarrow> string \<Rightarrow> string" where
  "inventory_file_content vm_hostname vm_username site =
     ''[vm]'' @ nl @
     vm_hostname @ '' ansible_user='' @ vm_username @
       '' ansible_connection=ssh ansible_python_interpreter=/usr/libexec/platform-python'' @ nl @
     nl @
     ''[vm:vars]'' @ nl @
     ''ansible_ssh_common_args='' @ quoted ssh_common_args @ nl @
     ''site='' @ site @ nl"

definition create_inventory_file :: "path \<Rightarrow> string \<Rightarrow> string \<Rightarrow> string \<Rightarrow> path io" where
  "create_inventory_file ansible_dir vm_hostname vm_username site =
     (let inventory_path = ansible_dir @ [''hosts'']
      in io_bind (fs_update (write_file inventory_path
                    (inventory_file_content vm_hostname vm_username site)))
           (\<lambda>u. io_return inventory_path))"

text \<open>
  Lines 87 to 93, under the comment \<open>Decode if base64 encoded\<close>: the content is decoded
  from base64 when the attempt succeeds and kept as it is when the attempt raises.
\<close>

definition decode_if_base64 :: "env \<Rightarrow> string \<Rightarrow> string" where
  "decode_if_base64 E ssh_key_content =
     (case b64decode_utf8 E ssh_key_content of
        Inr decoded_key \<Rightarrow> decoded_key
      | Inl e \<Rightarrow> ssh_key_content)"

text \<open>
  \<open>setup_ssh_key(ssh_key_content)\<close>, lines 80 to 100. The key goes to \<open>~/.ssh/id_rsa\<close>.
\<close>

definition setup_ssh_key :: "env \<Rightarrow> string \<Rightarrow> path io" where
  "setup_ssh_key E ssh_key_content =
     (let ssh_dir = home_dir E @ [''.ssh'']
      in io_bind (fs_update (makedirs ssh_dir))
           (\<lambda>u. let key_path = ssh_dir @ [''id_rsa''];
                    content = decode_if_base64 E ssh_key_content
                in io_bind (fs_update (write_file key_path content))
                     (\<lambda>u. io_bind (io_modify (\<lambda>w. w\<lparr>key_writes := key_writes w @ [key_path]\<rparr>))
                       (\<lambda>u. io_bind (fs_update (chmod key_path 384))
                         (\<lambda>u. io_return key_path)))))"

text \<open>The loop of lines 117 to 119: every entry becomes a flag pair.\<close>

fun extra_vars_list :: "env \<Rightarrow> (string \<times> pyval) list \<Rightarrow> string list" where
  "extra_vars_list E [] = []"
| "extra_vars_list E ((k, v) # rest) =
     [''-e'', k @ ''='' @ format_value E v] @ extra_vars_list E rest"

text \<open>The command of lines 122 to 128.\<close>

definition deployment_cmd :: "env \<Rightarrow> path \<Rightarrow> (string \<times> pyval) list \<Rightarrow> string list" where
  "deployment_cmd E inventory_path extra_vars =
     [''ansible-playbook'',
      ''-i'', path_str inventory_path,
      ''main.yml'',
      ''--ssh-common-args'', ssh_common_args,
      ''-vvv''] @ extra_vars_list E extra_vars"

text \<open>The environment of the subprocess, lines 111 to 114.\<close>

definition deployment_env :: "env \<Rightarrow> (string \<times> string) list" where
  "deployment_env E =
     AList.update ''ANSIBLE_GATHERING'' ''explicit''
       (AList.update ''ANSIBLE_STDOUT_CALLBACK'' ''yaml''
         (AList.update ''ANSIBLE_HOST_KEY_CHECKING'' ''False'' (environ E)))"

text \<open>
  \<open>execute_ansible_playbook(ansible_dir, inventory_path, extra_vars)\<close>, lines 102 to
  166. The whole body stands in a \<open>try\<close> with two handlers, one for the timeout and one
  for every other exception; the working directory is restored on the normal path only.
\<close>

definition execute_ansible_playbook ::
  "env \<Rightarrow> path \<Rightarrow> path \<Rightarrow> (string \<times> pyval) list \<Rightarrow> exec_result io" where
  "execute_ansible_playbook E ansible_dir inventory_path extra_vars =
     try_except
       (io_bind getcwd
         (\<lambda>original_cwd. io_bind (chdir ansible_dir)
           (\<lambda>u. let cmd = deployment_cmd E inventory_path extra_vars
                in io_bind (io_get cwd)
                     (\<lambda>here. case run_process E cmd here (deployment_env E) of
                               Exited rc out err \<Rightarrow>
                                 io_bind (chdir original_cwd)
                                   (\<lambda>u. io_return \<lparr>returncode = rc, stdout = out, stderr = err,
                                                    success = (rc = 0)\<rparr>)
                             | TimedOut \<Rightarrow> io_raise (Exn TimeoutExpired (timeout_text E cmd))
                             | LaunchFailed e \<Rightarrow> io_raise e))))
       (\<lambda>e. if exn_class_of e = TimeoutExpired
            then io_return \<lparr>returncode = - 1, stdout = [],
                            stderr = ''Execution timed out after 15 minutes'', success = False\<rparr>
            else io_return \<lparr>returncode = - 1, stdout = [], stderr = str_exn e,
                            success = False\<rparr>)"

text \<open>\<open>get_inventory_mapping(site)\<close>, lines 168 to 191.\<close>

record inventory =
  hostname :: string
  username :: string
  ssh_key :: string
  datasource_url :: string
  db_username :: string
  db_password :: string

definition get_inventory_mapping :: "env \<Rightarrow> string \<Rightarrow> inventory io" where
  "get_inventory_mapping E site =
     try_except
       (io_bind (get_secret_parameter E (''/demoapp/vm/'' @ str_lower site @ ''/hostname'') False)
         (\<lambda>h. io_bind (get_secret_parameter E (''/demoapp/vm/'' @ str_lower site @ ''/username'') False)
           (\<lambda>u. io_bind (get_secret_parameter E ''/demoapp/vm/ssh-key'' True)
             (\<lambda>k. io_bind (get_secret_parameter E
                              (''/demoapp/vm/'' @ str_lower site @ ''/datasource_url'') True)
               (\<lambda>ds. io_bind (get_secret_parameter E
                                (''/demoapp/vm/'' @ str_lower site @ ''/db_username'') True)
                 (\<lambda>dbu. io_bind (get_secret_parameter E
                                   (''/demoapp/vm/'' @ str_lower site @ ''/db_password'') True)
                   (\<lambda>dbp. io_return
                            \<lparr>hostname = h, username = u, ssh_key = k, datasource_url = ds,
                             db_username = dbu, db_password = dbp\<rparr>)))))))
       (\<lambda>e. io_raise (Exn ValueError (''No inventory mapping found for site: '' @ site)))"

text \<open>\<open>cleanup()\<close>, lines 193 to 197, on an object whose \<open>work_dir\<close> is given.\<close>

definition cleanup :: "path option \<Rightarrow> unit io" where
  "cleanup work_dir =
     (case work_dir of
        None \<Rightarrow> io_return ()
      | Some d \<Rightarrow>
          io_bind (io_get (\<lambda>w. files w d \<noteq> None))
            (\<lambda>there. if there then io_modify (\<lambda>w. w\<lparr>files := rmtree d (files w)\<rparr>)
                     else io_return ()))"

text \<open>The request body of line 204.\<close>

definition deployment_request_body :: "env \<Rightarrow> pyval \<Rightarrow> exn + pyval" where
  "deployment_request_body E event =
     (case py_get event ''body'' PNone of
        Inl e \<Rightarrow> Inl e
      | Inr (PStr s) \<Rightarrow> json_loads E s
      | Inr b \<Rightarrow> Inr event)"

text \<open>Lines 232 to 287: the steps that follow the making of the work directory.\<close>

definition deployment_in_workspace ::
  "env \<Rightarrow> path \<Rightarrow> pyval \<Rightarrow> pyval \<Rightarrow> string \<Rightarrow> pyval \<Rightarrow> pyval \<Rightarrow> pyval \<Rightarrow> pyval \<Rightarrow> response io" where
  "deployment_in_workspace E work_dir service_name jar_timestamp site app_user ansible_s3_bucket
       ansible_s3_key artifacts_s3_bucket =
     io_bind (get_inventory_mapping E site)
       (\<lambda>inv. io_bind (setup_ssh_key E (ssh_key inv))
         (\<lambda>ssh_key_path.
            io_bind (download_ansible_package E work_dir ansible_s3_bucket ansible_s3_key)
              (\<lambda>ansible_dir.
                 io_bind (create_inventory_file ansible_dir (hostname inv) (username inv) site)
                   (\<lambda>inventory_path.
                      let extra_vars =
                            [(''service_name'', service_name),
                             (''jar_timestamp'', jar_timestamp),
                             (''aws_s3_bucket_repository'', artifacts_s3_bucket),
                             (''aws_access_key_id'', getenv E ''AWS_ACCESS_KEY_ID''),
                             (''aws_secret_access_key'', getenv E ''AWS_SECRET_ACCESS_KEY''),
                             (''aws_default_region'', getenv E ''AWS_DEFAULT_REGION''),
                             (''site'', PStr site),
                             (''app_user'', app_user),
                             (''datasource_url'', PStr (datasource_url inv)),
                             (''db_username'', PStr (db_username inv)),
                             (''db_password'', PStr (db_password inv))]
                      in io_bind (execute_ansible_playbook E ansible_dir inventory_path
                                    extra_vars)
                           (\<lambda>result.
                              if success result
                              then io_return
                                     \<lparr>statusCode = 200,
                                      body = [(''message'',
                                                 PStr ''Deployment completed successfully''),
                                              (''service_name'', service_name),
                                              (''timestamp'', jar_timestamp),
                                              (''site'', PStr site),
                                              (''target_vm'', PStr (hostname inv)),
                                              (''ansible_output'',
                                                 PStr (last_chars 2000 (stdout result)))]\<rparr>
                              else io_return
                                     \<lparr>statusCode = 500,
                                      body = [(''error'', PStr ''Deployment failed''),
                                              (''ansible_stderr'',
                                                 PStr (last_chars 2000 (stderr result))),
                                              (''ansible_stdout'',
                                                 PStr (last_chars 2000 (stdout result)))]\<rparr>)))))"

text \<open>Lines 223 to 287: the run once the request is accepted.\<close>

definition deployment_run ::
  "env \<Rightarrow> pyval \<Rightarrow> pyval \<Rightarrow> string \<Rightarrow> pyval \<Rightarrow> pyval \<Rightarrow> pyval \<Rightarrow> pyval \<Rightarrow> response io" where
  "deployment_run E service_name jar_timestamp site app_user ansible_s3_bucket ansible_s3_key
       artifacts_s3_bucket =
     io_bind (new_deployer E)
       (\<lambda>u. io_bind (setup_work_directory E)
         (\<lambda>work_dir. deployment_in_workspace E work_dir service_name jar_timestamp site app_user
                        ansible_s3_bucket ansible_s3_key artifacts_s3_bucket))"

text \<open>Lines 203 to 287: the body of the \<open>try\<close>.\<close>

definition deployment_try :: "env \<Rightarrow> pyval \<Rightarrow> response io" where
  "deployment_try E event =
     io_bind (io_lift (deployment_request_body E event))
       (\<lambda>payload. io_bind (io_lift (py_get payload ''service_name'' PNone))
         (\<lambda>service_name. io_bind (io_lift (py_get payload ''jar_timestamp'' PNone))
           (\<lambda>jar_timestamp. io_bind (io_lift (py_get payload ''site'' (PStr ''sit1'')))
             (\<lambda>site_value. io_bind (io_lift (py_upper site_value))
               (\<lambda>site. io_bind (io_lift (py_get payload ''app_user'' (PStr ''appuser'')))
                 (\<lambda>app_user.
                    io_bind (io_lift (py_get payload ''ansible_s3_bucket''
                                        (getenv E ''ANSIBLE_S3_BUCKET'')))
                      (\<lambda>ansible_s3_bucket.
                         io_bind (io_lift (py_get payload ''ansible_s3_key''
                                             (PStr ''ansible/ansible-playbooks.zip'')))
                           (\<lambda>ansible_s3_key.
                              io_bind (io_lift (py_get payload ''artifacts_s3_bucket''
                                                  (getenv E ''AWS_S3_BUCKET_REPOSITORY'')))
                                (\<lambda>artifacts_s3_bucket.
                                   if \<not> (truthy service_name \<and> truthy jar_timestamp
                                         \<and> truthy artifacts_s3_bucket \<and> truthy ansible_s3_bucket)
                                   then io_return
                                          \<lparr>statusCode = 400,
                                           body = [(''error'',
                                             PStr ''Missing required parameters: service_name, jar_timestamp, artifacts_s3_bucket, ansible_s3_bucket'')]\<rparr>
                                   else deployment_run E service_name jar_timestamp site app_user
                                          ansible_s3_bucket ansible_s3_key
                                          artifacts_s3_bucket)))))))))"

text \<open>
  \<open>lambda_handler(event, context)\<close> of deployment\_lambda.py, lines 199 to 300:
  \<open>deployer = None\<close>, the \<open>try\<close> with its \<open>except Exception\<close>, and the \<open>finally\<close> that
  cleans up when a deployer was made.
\<close>

definition deployment_lambda_handler :: "env \<Rightarrow> pyval \<Rightarrow> response io" where
  "deployment_lambda_handler E event =
     io_bind (io_modify (\<lambda>w. w\<lparr>deployer := None\<rparr>))
       (\<lambda>u. try_finally
              (try_except (deployment_try E event)
                 (\<lambda>e. io_return
                        \<lparr>statusCode = 500,
                         body = [(''error'', PStr (str_exn e)),
                                 (''message'', PStr ''Lambda deployment failed'')]\<rparr>))
              (io_bind (io_get deployer)
                 (\<lambda>d. case d of None \<Rightarrow> io_return () | Some work_dir \<Rightarrow> cleanup work_dir)))"

section \<open>A sample run\<close>

text \<open>
  One environment, file system and event, on which the theorems below are instantiated:
  the package carries \<open>ansible_bundle.zip\<close> and no \<open>ansible\<close> directory; every archive
  holds the playbook and one entry named \<open>../evil\<close>; the secret store answers every
  identifier, with a binary value for the key and a text for any other; the parameter
  store holds the text \<open>aGVsbG8=\<close> (which is base64 for \<open>hello\<close>) under the key's
  name; the tool exits with status 0.
\<close>

definition sample_env :: env where
  "sample_env =
     \<lparr>json_loads = (\<lambda>s. Inr (PDict [(''VM_HOSTNAME'', PStr ''vm1.example''),
                                      (''VM_USERNAME'', PStr ''deploy'')])),
      b64decode_utf8 = (\<lambda>s. if s = ''aGVsbG8='' then Inr ''hello''
                             else Inl (Exn DecodeError ''Incorrect padding'')),
      py_repr = (\<lambda>v. ''repr''),
      environ = [(''AWS_S3_BUCKET_REPOSITORY'', ''artifacts''),
                 (''ANSIBLE_S3_BUCKET'', ''playbooks'')],
      module_dir = [''var'', ''task''],
      home_dir = [''home'', ''user''],
      tmp_dir = [''tmp''],
      tmp_name = ''k3x9'',
      get_secret_value =
        (\<lambda>i. if i = ''demoapp/vm/ssh-key''
             then Inr \<lparr>SecretString = None, SecretBinary = Some ''aGVsbG8=''\<rparr>
             else Inr \<lparr>SecretString = Some ''record'', SecretBinary = None\<rparr>),
      get_parameter = (\<lambda>n d. Inr (if n = ''/demoapp/vm/ssh-key'' then ''aGVsbG8='' else ''x'')),
      boto3_client = (\<lambda>n. None),
      s3_download = (\<lambda>b k. Inr ''zipbytes''),
      zip_entries = (\<lambda>c. Inr [(''ansible/main.yml'', ''play''), (''../evil'', ''x'')]),
      run_process = (\<lambda>c d e. Exited 0 ''ok'' [])\<rparr>"

definition sample_files :: filesys where
  "sample_files =
     [[] \<mapsto> Dir, [''tmp''] \<mapsto> Dir, [''var''] \<mapsto> Dir, [''var'', ''task''] \<mapsto> Dir,
      [''var'', ''task'', ''ansible_bundle.zip''] \<mapsto> File ''zipbytes'' 420,
      [''home''] \<mapsto> Dir, [''home'', ''user''] \<mapsto> Dir]"

definition sample_world :: world where
  "sample_world =
     \<lparr>files = sample_files, cwd = [''var'', ''task''], secret_calls = [], workspaces = [],
      key_writes = [], deployer = None\<rparr>"

definition sample_event :: pyval where
  "sample_event =
     PDict [(''service_name'', PStr ''svc1''), (''jar_timestamp'', PStr ''t1''),
            (''site'', PStr ''SIT1'')]"

text \<open>The same environment with a tool that runs into the timeout.\<close>

definition timeout_env :: env where
  "timeout_env = sample_env\<lparr>run_process := (\<lambda>c d e. TimedOut)\<rparr>"

section \<open>Predicates of the statements\<close>

text \<open>
  A required field is missing from a request when the handler's test \<open>not value\<close>
  holds of \<open>body.get(key)\<close>: the key is absent, or its value is \<open>None\<close> or empty.
\<close>

definition missing :: "(string \<times> pyval) list \<Rightarrow> string \<Rightarrow> bool" where
  "missing d k = (\<not> truthy (case map_of d k of None \<Rightarrow> PNone | Some v \<Rightarrow> v))"


text \<open>Whatever a step returns satisfies \<open>Q\<close>.\<close>

definition returns :: "('a \<Rightarrow> bool) \<Rightarrow> 'a io \<Rightarrow> bool" where
  "returns Q m = (\<forall>w a w'. m w = (Inr a, w') \<longrightarrow> Q a)"

definition known_status :: "response \<Rightarrow> bool" where
  "known_status r = (statusCode r = 200 \<or> statusCode r = 400 \<or> statusCode r = 500)"

text \<open>However a step ends, the state it leaves is related by \<open>R\<close> to the one it found.\<close>

definition steps_within :: "(world \<Rightarrow> world \<Rightarrow> bool) \<Rightarrow> 'a io \<Rightarrow> bool" where
  "steps_within R m = (\<forall>w r w'. m w = (r, w') \<longrightarrow> R w w')"

text \<open>No work directory is made and the deployer variable is not assigned.\<close>

definition same_run :: "world \<Rightarrow> world \<Rightarrow> bool" where
  "same_run w w' = (workspaces w' = workspaces w \<and> deployer w' = deployer w)"

text \<open>
  A directory and all its ancestors exist; two file systems agree everywhere outside a
  directory; a directory or its parent.
\<close>

definition anchored :: "path \<Rightarrow> filesys \<Rightarrow> bool" where
  "anchored a f = list_all (\<lambda>p. f p = Some Dir) (prefixes a)"

definition outside_same :: "path \<Rightarrow> filesys \<Rightarrow> filesys \<Rightarrow> bool" where
  "outside_same d f f' = (\<forall>q. \<not> prefix d q \<longrightarrow> f' q = f q)"

definition near :: "path \<Rightarrow> path \<Rightarrow> bool" where
  "near a d = (a = d \<or> a = butlast d)"

text \<open>
  A step that writes key material only under \<open>d\<close> and, when \<open>a\<close> and its ancestors
  are directories, leaves them so and changes nothing outside \<open>d\<close>.
\<close>

definition confined :: "path \<Rightarrow> path \<Rightarrow> world \<Rightarrow> world \<Rightarrow> bool" where
  "confined a d w w' =
     ((\<exists>new. key_writes w' = key_writes w @ new \<and> list_all (prefix d) new)
      \<and> (anchored a (files w) \<longrightarrow> anchored a (files w') \<and> outside_same d (files w) (files w')))"



text \<open>A step that touches neither the files nor the logs of directories and key files.\<close>

definition unchanged_but_calls :: "world \<Rightarrow> world \<Rightarrow> bool" where
  "unchanged_but_calls w w' =
     (files w' = files w \<and> key_writes w' = key_writes w \<and> workspaces w' = workspaces w)"

text \<open>
  Between two states: every path key material was written to lies under a work
  directory of the run and holds nothing in the second state, and every file of the
  second state was there, the same, in the first.
\<close>

definition key_clean :: "world \<Rightarrow> world \<Rightarrow> bool" where
  "key_clean w w' =
     ((\<exists>new. key_writes w' = key_writes w @ new
           \<and> list_all (\<lambda>p. files w' p = None \<and> list_ex (\<lambda>d. prefix d p) (workspaces w')) new)
      \<and> (\<forall>q n. files w' q = Some n \<longrightarrow> files w q = Some n))"

definition key_clean_from :: "path \<Rightarrow> world \<Rightarrow> world \<Rightarrow> bool" where
  "key_clean_from t w w' = (anchored t (files w) \<longrightarrow> key_clean w w')"

section \<open>Rules for steps\<close>

lemma io_bind_lift_Inr [simp]: "io_bind (io_lift (Inr a)) k = k a"
  by (simp add: io_bind_def io_lift_def)

lemma io_bind_lift_Inl [simp]: "io_bind (io_lift (Inl e)) k = io_raise e"
  by (simp add: io_bind_def io_lift_def io_raise_def)

lemma io_bind_return [simp]: "io_bind (io_return a) k = k a"
  by (simp add: io_bind_def io_return_def)

lemma io_bind_raise [simp]: "io_bind (io_raise e) k = io_raise e"
  by (simp add: io_bind_def io_raise_def)

lemma try_except_raise [simp]: "try_except (io_raise e) h = h e"
  by (simp add: try_except_def io_raise_def)

lemma try_except_return [simp]: "try_except (io_return a) h = io_return a"
  by (simp add: try_except_def io_return_def)

lemma returns_return: "Q a \<Longrightarrow> returns Q (io_return a)"
  by (simp add: returns_def io_return_def)

lemma returns_raise: "returns Q (io_raise e)"
  by (simp add: returns_def io_raise_def)

lemma returns_bind: "(\<And>a. returns Q (k a)) \<Longrightarrow> returns Q (io_bind m k)"
  by (auto simp: returns_def io_bind_def split: prod.splits sum.splits)

lemma returns_try_finally: "returns Q m \<Longrightarrow> returns Q (try_finally m c)"
  by (auto simp: returns_def try_finally_def split: prod.splits sum.splits)

lemma returns_if: "(b \<Longrightarrow> returns Q m) \<Longrightarrow> (\<not> b \<Longrightarrow> returns Q n) \<Longrightarrow> returns Q (if b then m else n)"
  by simp

lemma sw_return: "reflp R \<Longrightarrow> steps_within R (io_return a)"
  by (auto simp: steps_within_def io_return_def reflp_def)

lemma sw_raise: "reflp R \<Longrightarrow> steps_within R (io_raise e)"
  by (auto simp: steps_within_def io_raise_def reflp_def)

lemma sw_lift: "reflp R \<Longrightarrow> steps_within R (io_lift x)"
  by (auto simp: steps_within_def io_lift_def reflp_def)

lemma sw_get: "reflp R \<Longrightarrow> steps_within R (io_get g)"
  by (auto simp: steps_within_def io_get_def reflp_def)

lemma sw_modify: "(\<And>w. R w (g w)) \<Longrightarrow> steps_within R (io_modify g)"
  by (auto simp: steps_within_def io_modify_def)

lemma sw_bind:
  assumes "transp R" and "steps_within R m" and "\<And>a. steps_within R (k a)"
  shows "steps_within R (io_bind m k)"
  unfolding steps_within_def
proof (intro allI impI)
  fix w r w' assume run: "io_bind m k w = (r, w')"
  obtain r1 w1 where m: "m w = (r1, w1)" by (cases "m w")
  have 1: "R w w1" using assms(2) m by (auto simp: steps_within_def)
  show "R w w'"
  proof (cases r1)
    case (Inl e)
    with run m have "w' = w1" by (simp add: io_bind_def)
    with 1 show ?thesis by simp
  next
    case (Inr a)
    with run m have "k a w1 = (r, w')" by (simp add: io_bind_def)
    then have "R w1 w'" using assms(3)[of a] by (auto simp: steps_within_def)
    with 1 assms(1) show ?thesis by (auto elim: transpE)
  qed
qed

lemma sw_try_except:
  assumes "transp R" and "steps_within R m" and "\<And>e. steps_within R (h e)"
  shows "steps_within R (try_except m h)"
  unfolding steps_within_def
proof (intro allI impI)
  fix w r w' assume run: "try_except m h w = (r, w')"
  obtain r1 w1 where m: "m w = (r1, w1)" by (cases "m w")
  have 1: "R w w1" using assms(2) m by (auto simp: steps_within_def)
  show "R w w'"
  proof (cases r1)
    case (Inr a)
    with run m have "w' = w1" by (simp add: try_except_def)
    with 1 show ?thesis by simp
  next
    case (Inl e)
    with run m have "h e w1 = (r, w')" by (simp add: try_except_def)
    then have "R w1 w'" using assms(3)[of e] by (auto simp: steps_within_def)
    with 1 assms(1) show ?thesis by (auto elim: transpE)
  qed
qed

lemma sw_try_finally:
  assumes "transp R" and "steps_within R m" and "steps_within R c"
  shows "steps_within R (try_finally m c)"
  unfolding steps_within_def
proof (intro allI impI)
  fix w r w' assume run: "try_finally m c w = (r, w')"
  obtain r1 w1 where m: "m w = (r1, w1)" by (cases "m w")
  obtain r2 w2 where c: "c w1 = (r2, w2)" by (cases "c w1")
  have 1: "R w w1" using assms(2) m by (auto simp: steps_within_def)
  have 2: "R w1 w2" using assms(3) c by (auto simp: steps_within_def)
  from run m c have "w' = w2" by (cases r2) (simp_all add: try_finally_def)
  with 1 2 assms(1) show "R w w'" by (auto elim: transpE)
qed

lemma sw_fs_update:
  assumes "reflp R" and "\<And>w f. opn (files w) = Inr f \<Longrightarrow> R w (w\<lparr>files := f\<rparr>)"
  shows "steps_within R (fs_update opn)"
  using assms by (auto simp: steps_within_def fs_update_def reflp_def split: sum.splits)

lemma sw_if: "(b \<Longrightarrow> steps_within R m) \<Longrightarrow> (\<not> b \<Longrightarrow> steps_within R n)
    \<Longrightarrow> steps_within R (if b then m else n)"
  by simp

lemma same_run_reflp: "reflp same_run" by (simp add: reflp_def same_run_def)
lemma same_run_transp: "transp same_run" by (auto simp: transp_def same_run_def)

lemmas sr_rules =
  sw_return[OF same_run_reflp] sw_raise[OF same_run_reflp] sw_lift[OF same_run_reflp]
  sw_get[OF same_run_reflp] sw_bind[OF same_run_transp] sw_try_except[OF same_run_transp]
  sw_try_finally[OF same_run_transp] sw_if

lemma sr_fs_update: "steps_within same_run (fs_update opn)"
  by (rule sw_fs_update[OF same_run_reflp]) (simp add: same_run_def)

lemma sr_unpack_entries: "steps_within same_run (unpack_entries d es)"
  by (induction d es rule: unpack_entries.induct) (auto intro!: sr_rules sr_fs_update)


lemma sr_unpack_archive: "steps_within same_run (unpack_archive E b d)"
  unfolding unpack_archive_def
  by (auto intro!: sr_rules sr_unpack_entries split: option.splits node.splits)


lemma sr_copy_embedded: "steps_within same_run (copy_embedded_ansible E d)"
  unfolding copy_embedded_ansible_def Let_def
  by (auto intro!: sr_rules sr_fs_update sr_unpack_archive)

lemma sr_secrets_get: "steps_within same_run (secrets_get E i)"
  unfolding secrets_get_def
  by (auto intro!: sr_rules sw_modify simp: same_run_def)

lemma sr_write_ssh_key: "steps_within same_run (write_ssh_key E d i)"
  unfolding write_ssh_key_def Let_def
  by (auto intro!: sr_rules sr_fs_update sr_secrets_get sw_modify simp: same_run_def)

lemma sr_create_inventory: "steps_within same_run (create_inventory E d h u s)"
  unfolding create_inventory_def Let_def
  by (auto intro!: sr_rules sr_fs_update)

lemma sr_run_playbook: "steps_within same_run (run_playbook E d x k)"
  unfolding run_playbook_def Let_def
  by (auto intro!: sr_rules split: proc_outcome.splits)

lemma sr_in_workspace:
  "steps_within same_run (ansible_in_workspace E d sn jt s au vh vu ds dbu dbp)"
  unfolding ansible_in_workspace_def Let_def
  by (intro sr_rules sr_copy_embedded sr_write_ssh_key sr_create_inventory sr_run_playbook)

section \<open>Steps that stay inside a directory\<close>

lemma anchored_iff: "anchored a f \<longleftrightarrow> (\<forall>p. prefix p a \<longrightarrow> f p = Some Dir)"
  by (auto simp: anchored_def list_all_iff)

lemma strict_prefix_butlast: "prefix q d \<Longrightarrow> q \<noteq> d \<Longrightarrow> prefix q (butlast d)"
  by (auto simp: prefix_def butlast_append)

lemma below_near: "near a d \<Longrightarrow> prefix q d \<Longrightarrow> \<not> prefix d q \<Longrightarrow> prefix q a"
  by (auto simp: near_def dest: strict_prefix_butlast)

lemma makedirs_result:
  "makedirs p f = Inr f' \<Longrightarrow> f' = (\<lambda>q. if prefix q p \<and> f q = None then Some Dir else f q)"
  by (auto simp: makedirs_def split: if_splits)

lemma makedirs_under:
  assumes "near a d" and "prefix d p" and "anchored a f" and "makedirs p f = Inr f'"
  shows "anchored a f' \<and> outside_same d f f'"
proof -
  have f': "f' = (\<lambda>q. if prefix q p \<and> f q = None then Some Dir else f q)"
    using assms(4) by (rule makedirs_result)
  have "f' q = f q" if "\<not> prefix d q" for q
  proof (cases "prefix q p")
    case True
    with assms(2) have "prefix q d \<or> prefix d q" by (metis prefix_same_cases)
    with that have "prefix q a" using below_near[OF assms(1)] by blast
    with assms(3) have "f q = Some Dir" by (simp add: anchored_iff)
    then show ?thesis by (simp add: f')
  next
    case False
    then show ?thesis by (simp add: f')
  qed
  moreover have "f' q = Some Dir" if "prefix q a" for q
    using that assms(3) by (simp add: anchored_iff f')
  ultimately show ?thesis by (simp add: anchored_iff outside_same_def)
qed

lemma makedirs_above:
  assumes "anchored a f" and "prefix p a" and "makedirs p f = Inr f'"
  shows "f' = f"
proof -
  have f': "f' = (\<lambda>q. if prefix q p \<and> f q = None then Some Dir else f q)"
    using assms(3) by (rule makedirs_result)
  have "f' q = f q" for q
  proof (cases "prefix q p")
    case True
    with assms(2) have "prefix q a" by (metis prefix_order.trans)
    with assms(1) have "f q = Some Dir" by (simp add: anchored_iff)
    then show ?thesis by (simp add: f')
  next
    case False
    then show ?thesis by (simp add: f')
  qed
  then show ?thesis by blast
qed

lemma update_under:
  assumes "prefix d p" and "anchored a f" and "f p \<noteq> Some Dir"
  shows "anchored a (f(p \<mapsto> n)) \<and> outside_same d f (f(p \<mapsto> n))"
proof -
  have "(f(p \<mapsto> n)) q = f q" if "\<not> prefix d q" for q
    using that assms(1) by auto
  moreover have "(f(p \<mapsto> n)) q = Some Dir" if "prefix q a" for q
    using that assms(2,3) by (auto simp: anchored_iff)
  ultimately show ?thesis by (simp add: anchored_iff outside_same_def)
qed

lemma write_file_under:
  assumes "prefix d p" and "anchored a f" and "write_file p c f = Inr f'"
  shows "anchored a f' \<and> outside_same d f f'"
proof -
  from assms(3) have "f p \<noteq> Some Dir" and "\<exists>n. f' = f(p \<mapsto> n)"
    by (auto simp: write_file_def split: if_splits)
  with update_under[OF assms(1,2)] show ?thesis by blast
qed

lemma mkdir_under:
  assumes "prefix d p" and "anchored a f" and "mkdir p f = Inr f'"
  shows "anchored a f' \<and> outside_same d f f'"
proof -
  from assms(3) have "f p \<noteq> Some Dir" and "\<exists>n. f' = f(p \<mapsto> n)"
    by (auto simp: mkdir_def split: if_splits)
  with update_under[OF assms(1,2)] show ?thesis by blast
qed

lemma outside_same_refl: "outside_same d f f"
  by (simp add: outside_same_def)

lemma chmod_under:
  assumes "prefix d p" and "anchored a f" and "chmod p m f = Inr f'"
  shows "anchored a f' \<and> outside_same d f f'"
proof (cases "f p")
  case None
  with assms(3) show ?thesis by (simp add: chmod_def)
next
  case (Some n)
  show ?thesis
  proof (cases n)
    case Dir
    with Some assms(3) have "f' = f" by (simp add: chmod_def)
    with assms(2) show ?thesis by (simp add: outside_same_refl)
  next
    case (File c m0)
    with Some assms(3) have "f p \<noteq> Some Dir" and "\<exists>n. f' = f(p \<mapsto> n)"
      by (auto simp: chmod_def)
    with update_under[OF assms(1,2)] show ?thesis by blast
  qed
qed

lemma copytree_under:
  assumes "anchored d f" and "copytree src (d @ [n]) f = Inr f'"
  shows "anchored d f' \<and> outside_same d f f'"
proof -
  from assms(2) obtain f1 where m: "makedirs d f = Inr f1"
    and f': "f' = (\<lambda>q. if prefix (d @ [n]) q then f (src @ drop (length (d @ [n])) q) else f1 q)"
    by (auto simp: copytree_def split: if_splits sum.splits)
  have f1: "f1 = f" using makedirs_above[OF assms(1) _ m] by simp
  have "f' q = f q" if "\<not> prefix d q" for q
  proof -
    from that have "\<not> prefix (d @ [n]) q" by (metis prefix_order.trans prefixI)
    then show ?thesis by (simp add: f' f1)
  qed
  moreover have "f' q = Some Dir" if "prefix q d" for q
  proof -
    from that have "length q \<le> length d" by (rule prefix_length_le)
    then have "\<not> prefix (d @ [n]) q" by (auto dest: prefix_length_le)
    with that assms(1) show ?thesis by (simp add: f' f1 anchored_iff)
  qed
  ultimately show ?thesis by (simp add: anchored_iff outside_same_def)
qed

lemma confined_reflp: "reflp (confined a d)"
  by (auto simp: reflp_def confined_def outside_same_def)

lemma confined_transp: "transp (confined a d)"
  unfolding transp_def confined_def outside_same_def
  by (intro allI impI) (auto simp: list_all_iff)

lemmas cf_rules =
  sw_return[OF confined_reflp] sw_raise[OF confined_reflp] sw_lift[OF confined_reflp]
  sw_get[OF confined_reflp] sw_bind[OF confined_transp] sw_try_except[OF confined_transp]
  sw_try_finally[OF confined_transp] sw_if

lemma cf_files:
  assumes "\<And>f f'. anchored a f \<Longrightarrow> opn f = Inr f' \<Longrightarrow> anchored a f' \<and> outside_same d f f'"
  shows "steps_within (confined a d) (fs_update opn)"
  by (rule sw_fs_update[OF confined_reflp]) (auto simp: confined_def dest: assms)

lemma cf_makedirs: "near a d \<Longrightarrow> prefix d p \<Longrightarrow> steps_within (confined a d) (fs_update (makedirs p))"
  by (rule cf_files) (rule makedirs_under)

lemma cf_makedirs_above: "prefix p a \<Longrightarrow> steps_within (confined a d) (fs_update (makedirs p))"
  by (rule cf_files) (auto dest: makedirs_above simp: outside_same_refl)

lemma cf_write_file: "prefix d p \<Longrightarrow> steps_within (confined a d) (fs_update (write_file p c))"
  by (rule cf_files) (rule write_file_under)

lemma cf_mkdir: "prefix d p \<Longrightarrow> steps_within (confined a d) (fs_update (mkdir p))"
  by (rule cf_files) (rule mkdir_under)

lemma cf_chmod: "prefix d p \<Longrightarrow> steps_within (confined a d) (fs_update (chmod p m))"
  by (rule cf_files) (rule chmod_under)

lemma cf_copytree: "steps_within (confined d d) (fs_update (copytree src (d @ [n])))"
  by (rule cf_files) (rule copytree_under)

lemma cf_log_key: "prefix d p \<Longrightarrow>
    steps_within (confined a d) (io_modify (\<lambda>w. w\<lparr>key_writes := key_writes w @ [p]\<rparr>))"
  by (rule sw_modify) (simp add: confined_def outside_same_refl)

lemma cf_log_call:
  "steps_within (confined a d) (io_modify (\<lambda>w. w\<lparr>secret_calls := secret_calls w @ [i]\<rparr>))"
  by (rule sw_modify) (simp add: confined_def outside_same_refl)

lemma split_on_not_Nil: "split_on c s \<noteq> []"
  by (induction s) (auto split: list.splits)

lemma split_on_head_prefix: "prefix (hd (split_on c s)) s"
  by (induction s) (auto split: list.splits)

lemma split_on_sublist: "x \<in> set (split_on c s) \<Longrightarrow> sublist x s"
proof (induction s arbitrary: x)
  case Nil
  then show ?case by simp
next
  case (Cons a s)
  show ?case
  proof (cases "a = c")
    case True
    with Cons.prems have "x = [] \<or> x \<in> set (split_on c s)" by simp
    then show ?thesis using Cons.IH by (auto simp: sublist_Cons_right)
  next
    case False
    obtain p ps where sp: "split_on c s = p # ps"
      using split_on_not_Nil[of c s] by (cases "split_on c s") auto
    have pre: "prefix p s" using split_on_head_prefix[of c s] sp by simp
    from Cons.prems False sp have "x = a # p \<or> x \<in> set ps" by simp
    then show ?thesis
    proof
      assume "x = a # p"
      with pre show ?thesis by (simp add: sublist_Cons_right)
    next
      assume "x \<in> set ps"
      then have "x \<in> set (split_on c s)" by (simp add: sp)
      then have "sublist x s" by (rule Cons.IH)
      then show ?thesis by (simp add: sublist_Cons_right)
    qed
  qed
qed

lemma walk_prefix: "''..'' \<notin> set ps \<Longrightarrow> prefix d (walk d ps)"
proof (induction ps arbitrary: d)
  case Nil
  then show ?case by simp
next
  case (Cons c cs)
  then have nd: "c \<noteq> ''..''" and rest: "''..'' \<notin> set cs" by auto
  show ?case
  proof (cases "c = [] \<or> c = ''.''")
    case True
    then show ?thesis using Cons.IH[OF rest, of d] by auto
  next
    case False
    then have "walk d (c # cs) = walk (d @ [c]) cs" using nd by simp
    moreover have "prefix (d @ [c]) (walk (d @ [c]) cs)" using Cons.IH[OF rest] .
    ultimately show ?thesis by (metis prefix_order.trans prefixI)
  qed
qed

lemma walk_name_prefix:
  assumes "\<not> sublist ''..'' name"
  shows "prefix d (walk d (split_on c name))" and "prefix d (walk d (butlast (split_on c name)))"
proof -
  have a: "''..'' \<notin> set (split_on c name)" using assms split_on_sublist by blast
  then show "prefix d (walk d (split_on c name))" by (rule walk_prefix)
  from a have "''..'' \<notin> set (butlast (split_on c name))" by (auto dest: in_set_butlastD)
  then show "prefix d (walk d (butlast (split_on c name)))" by (rule walk_prefix)
qed

lemma near_self: "near d d" by (simp add: near_def)
lemma near_parent: "near a (a @ [n])" by (simp add: near_def)

lemma cf_unpack_entries: "steps_within (confined d d) (unpack_entries d es)"
proof (induction d es rule: unpack_entries.induct)
  case (1 d)
  then show ?case by (simp add: cf_rules)
next
  case (2 d name dat rest)
  show ?case
  proof (cases "prefix ''/'' name \<or> sublist ''..'' name")
    case True
    then show ?thesis using 2 by simp
  next
    case False
    then have nd: "\<not> sublist ''..'' name" by simp
    have r: "steps_within (confined d d) (unpack_entries d rest)" using 2 False by blast
    show ?thesis using False
      by (auto intro!: cf_rules cf_makedirs cf_write_file r near_self walk_name_prefix[OF nd])
  qed
qed

lemma butlast_target:
  "butlast ((a @ [n]) @ arc) = a \<or> prefix (a @ [n]) (butlast ((a @ [n]) @ arc))"
  by (cases "arc = []") (simp_all add: butlast_append)

lemma cf_extract_mkdirs:
  "steps_within (confined a (a @ [n])) (fs_update (makedirs (butlast ((a @ [n]) @ arc))))"
  using butlast_target[of a n arc]
  by (auto intro: cf_makedirs_above cf_makedirs near_parent)

lemma cf_extract_members:
  "d = a @ [n] \<Longrightarrow> steps_within (confined a (a @ [n])) (extract_members d es)"
proof (induction d es rule: extract_members.induct)
  case (1 d)
  then show ?case by (simp add: cf_rules)
next
  case (2 d name dat rest)
  then have r: "steps_within (confined a (a @ [n])) (extract_members (a @ [n]) rest)" by simp
  show ?case unfolding 2(2) extract_members.simps
    by (intro cf_rules cf_extract_mkdirs cf_mkdir cf_write_file r) simp_all
qed

lemma cf_unpack_archive: "steps_within (confined d d) (unpack_archive E b d)"
  unfolding unpack_archive_def
  by (auto intro!: cf_rules cf_unpack_entries split: option.splits node.splits)

lemma cf_extractall: "steps_within (confined a (a @ [n])) (extractall E b (a @ [n]))"
  unfolding extractall_def
  by (auto intro!: cf_rules cf_extract_members split: option.splits node.splits)

lemma sw_bind_returns:
  assumes "transp R" and "steps_within R m" and "returns Q m"
      and "\<And>a. Q a \<Longrightarrow> steps_within R (k a)"
  shows "steps_within R (io_bind m k)"
  unfolding steps_within_def
proof (intro allI impI)
  fix w r w' assume run: "io_bind m k w = (r, w')"
  obtain r1 w1 where m: "m w = (r1, w1)" by (cases "m w")
  have 1: "R w w1" using assms(2) m by (auto simp: steps_within_def)
  show "R w w'"
  proof (cases r1)
    case (Inl e)
    with run m have "w' = w1" by (simp add: io_bind_def)
    with 1 show ?thesis by simp
  next
    case (Inr a)
    with m assms(3) have "Q a" by (auto simp: returns_def)
    from Inr run m have "k a w1 = (r, w')" by (simp add: io_bind_def)
    then have "R w1 w'" using assms(4)[OF \<open>Q a\<close>] by (auto simp: steps_within_def)
    with 1 assms(1) show ?thesis by (auto elim: transpE)
  qed
qed

lemma returns_copy_embedded:
  "returns (\<lambda>t. t = d @ [''ansible'']) (copy_embedded_ansible E d)"
  unfolding copy_embedded_ansible_def Let_def
  by (auto intro!: returns_bind returns_return returns_raise)

lemma returns_download:
  "returns (\<lambda>t. t = d @ [''ansible'']) (download_ansible_package E d b k)"
  unfolding download_ansible_package_def Let_def
  by (auto intro!: returns_bind returns_return returns_raise)

lemma cf_copy_embedded: "steps_within (confined d d) (copy_embedded_ansible E d)"
  unfolding copy_embedded_ansible_def Let_def
  by (auto intro!: cf_rules cf_copytree cf_unpack_archive)

lemma cf_secrets_get: "steps_within (confined a d) (secrets_get E i)"
  unfolding secrets_get_def by (intro cf_rules cf_log_call)

lemma cf_write_ssh_key: "steps_within (confined d d) (write_ssh_key E d i)"
  unfolding write_ssh_key_def Let_def
  by (intro cf_rules cf_secrets_get cf_write_file cf_log_key cf_chmod) simp_all

lemma cf_create_inventory:
  "steps_within (confined d d) (create_inventory E (d @ [''ansible'']) h u s)"
  unfolding create_inventory_def Let_def
  by (intro cf_rules cf_write_file) simp

lemma cf_run_playbook: "steps_within (confined a d) (run_playbook E p x k)"
  unfolding run_playbook_def Let_def
  by (auto intro!: cf_rules split: proc_outcome.splits)

lemma cf_in_workspace:
  "steps_within (confined d d) (ansible_in_workspace E d sn jt s au vh vu ds dbu dbp)"
  unfolding ansible_in_workspace_def Let_def
  apply (rule sw_bind_returns[OF confined_transp cf_copy_embedded returns_copy_embedded])
  apply (simp only:)
  by (intro cf_rules cf_write_ssh_key cf_create_inventory cf_run_playbook)

lemma steps_within_weaken:
  "steps_within R m \<Longrightarrow> (\<And>w w'. R w w' \<Longrightarrow> R' w w') \<Longrightarrow> steps_within R' m"
  by (auto simp: steps_within_def)

lemma confined_weaken: "confined d (d @ [n]) w w' \<Longrightarrow> confined d d w w'"
proof -
  assume c: "confined d (d @ [n]) w w'"
  have p: "prefix d q" if "prefix (d @ [n]) q" for q
    using that by (metis prefix_order.trans prefixI)
  from c obtain new where new: "key_writes w' = key_writes w @ new"
      "list_all (prefix (d @ [n])) new"
    by (auto simp: confined_def)
  from new(2) have "list_all (prefix d) new" by (auto simp: list_all_iff intro: p)
  moreover have "outside_same d f f'" if "outside_same (d @ [n]) f f'" for f f'
    using that p by (auto simp: outside_same_def)
  ultimately show ?thesis using c new(1) by (auto simp: confined_def)
qed

lemma cf_download:
  "steps_within (confined d d) (download_ansible_package E d b k)"
  unfolding download_ansible_package_def Let_def
  by (intro cf_rules cf_write_file steps_within_weaken[OF cf_extractall confined_weaken]) simp

lemma steps_within_outside:
  assumes "steps_within (confined a d) m" and "anchored a (files w)"
  shows "outside_same d (files w) (files (snd (m w)))"
  using assms by (cases "m w") (auto simp: steps_within_def confined_def)

section \<open>The timeout of the external tool\<close>

text \<open>
  \<open>execute_ansible_playbook\<close> of deployment\_lambda.py never raises, and when the tool
  runs into the timeout it returns the failure it builds: exit code \<open>-1\<close>, no success,
  and a text on stderr that names the timeout. (The process is started only when the
  working directory and \<open>ansible_dir\<close> exist.)
\<close>

lemma execute_never_raises:
  "\<exists>r w'. execute_ansible_playbook E a i x w = (Inr r, w')"
  unfolding execute_ansible_playbook_def try_except_def
  by (auto simp: io_return_def split: prod.splits sum.splits)

lemma execute_timeout:
  assumes "files w (cwd w) = Some Dir" and "files w a = Some Dir"
      and "run_process E (deployment_cmd E i x) a (deployment_env E) = TimedOut"
  shows "execute_ansible_playbook E a i x w =
           (Inr \<lparr>returncode = - 1, stdout = [],
                 stderr = ''Execution timed out after 15 minutes'', success = False\<rparr>,
            w\<lparr>cwd := a\<rparr>)"
  using assms
  by (simp add: execute_ansible_playbook_def try_except_def io_bind_def getcwd_def chdir_def
                io_get_def io_raise_def io_return_def Let_def)

text \<open>
  \<open>_run_playbook\<close> of ansible\_lambda.py has no \<open>try\<close>: whenever the tool runs into
  the timeout, the \<open>TimeoutExpired\<close> of \<open>subprocess.run\<close> leaves the function.
\<close>

lemma run_playbook_timeout:
  assumes "run_process E (playbook_cmd E d x) d (playbook_env E) = TimedOut"
  shows "run_playbook E d x k w = (Inl (Exn TimeoutExpired (timeout_text E (playbook_cmd E d x))), w)"
  using assms by (simp add: run_playbook_def io_raise_def Let_def)

text \<open>
  C1 fails in ansible\_lambda.py. The claim: whenever the external tool exceeds the
  900-second timeout, the executor returns a result with \<open>success = False\<close>, exit code
  \<open>-1\<close> and a stderr text naming the timeout, and no exception leaves the executor.
  With a tool that runs into the timeout, \<open>_run_playbook\<close> returns no result: it
  raises \<open>TimeoutExpired\<close>.
\<close>

theorem run_playbook_timeout_escapes:
  "run_playbook timeout_env [''tmp'', ''ansible_exec_k3x9'', ''ansible''] []
       [''tmp'', ''ansible_exec_k3x9'', ''id_rsa''] sample_world
     = (Inl (Exn TimeoutExpired
              (timeout_text timeout_env
                 (playbook_cmd timeout_env [''tmp'', ''ansible_exec_k3x9'', ''ansible''] []))),
        sample_world)"
  by (simp add: run_playbook_def io_raise_def Let_def timeout_env_def sample_env_def)

text \<open>
  The handler's outer \<open>except\<close> catches it: the response has status 500 and carries the
  text of the exception, without the stdout and stderr tails of a failed deployment.
\<close>

lemma handler_timeout_500:
  "fst (ansible_lambda_handler timeout_env sample_event sample_world)
     = Inr \<lparr>statusCode = 500,
            body = [(''error'',
                     PStr (''Command '' @ quoted ''repr'' @ '' timed out after 900 seconds''))]\<rparr>"
  by code_simp

section \<open>The work directory of a run\<close>

lemma io_bind_cases:
  assumes "io_bind m k w = (r, w')"
  obtains e where "m w = (Inl e, w')" and "r = Inl e"
        | a w1 where "m w = (Inr a, w1)" and "k a w1 = (r, w')"
proof (cases "m w")
  case (Pair r1 w1)
  show ?thesis
  proof (cases r1)
    case (Inl e)
    with Pair assms that(1) show ?thesis by (simp add: io_bind_def)
  next
    case (Inr a)
    with Pair assms that(2) show ?thesis by (simp add: io_bind_def)
  qed
qed

lemma sw_bind_pre:
  assumes "steps_within S m" and "\<And>a. steps_within R (k a)"
      and "\<And>w w'. S w w' \<Longrightarrow> R w w'"
      and "\<And>w w1 w'. S w w1 \<Longrightarrow> R w1 w' \<Longrightarrow> R w w'"
  shows "steps_within R (io_bind m k)"
  unfolding steps_within_def
proof (intro allI impI)
  fix w r w' assume run: "io_bind m k w = (r, w')"
  then show "R w w'"
  proof (cases rule: io_bind_cases)
    case (1 e)
    with assms(1) have "S w w'" by (auto simp: steps_within_def)
    then show ?thesis by (rule assms(3))
  next
    case (2 a w1)
    with assms(1) have "S w w1" by (auto simp: steps_within_def)
    moreover from 2 assms(2) have "R w1 w'" by (auto simp: steps_within_def)
    ultimately show ?thesis by (rule assms(4))
  qed
qed




lemma mkdtemp_cases:
  assumes "mkdtemp E pre w = (r, w1)"
  obtains e where "r = Inl e" and "w1 = w"
        | f where "r = Inr (tmp_dir E @ [pre @ tmp_name E])"
            and "mkdir (tmp_dir E @ [pre @ tmp_name E]) (files w) = Inr f"
            and "w1 = w\<lparr>files := f,
                         workspaces := workspaces w @ [tmp_dir E @ [pre @ tmp_name E]]\<rparr>"
  using assms
  by (auto simp: mkdtemp_def Let_def io_bind_def fs_update_def io_modify_def io_return_def
           split: sum.splits)



























section \<open>Where key material is written\<close>

lemma ubc_reflp: "reflp unchanged_but_calls" by (simp add: reflp_def unchanged_but_calls_def)
lemma ubc_transp: "transp unchanged_but_calls" by (auto simp: transp_def unchanged_but_calls_def)

lemma ubc_secrets_get: "steps_within unchanged_but_calls (secrets_get E i)"
  unfolding secrets_get_def
  by (intro sw_bind[OF ubc_transp] sw_modify sw_lift[OF ubc_reflp])
     (simp add: unchanged_but_calls_def)

lemma ubc_get_json_secret: "steps_within unchanged_but_calls (get_json_secret E i)"
  unfolding get_json_secret_def
  by (auto intro!: sw_bind[OF ubc_transp] sw_lift[OF ubc_reflp] sw_raise[OF ubc_reflp]
        ubc_secrets_get split: option.splits)

lemma ubc_clean: "unchanged_but_calls w w' \<Longrightarrow> key_clean_from t w w'"
  by (simp add: unchanged_but_calls_def key_clean_from_def key_clean_def)

lemma ubc_then_clean:
  "unchanged_but_calls w w1 \<Longrightarrow> key_clean_from t w1 w' \<Longrightarrow> key_clean_from t w w'"
  by (simp add: unchanged_but_calls_def key_clean_from_def key_clean_def)

lemmas kc_bind = sw_bind_pre[where S = unchanged_but_calls and R = "key_clean_from t" for t,
  OF _ _ ubc_clean ubc_then_clean]

lemma anchored_child:
  assumes "anchored t f" and "f (t @ [n]) = None"
  shows "anchored (t @ [n]) (f(t @ [n] \<mapsto> Dir))"
  using assms by (auto simp: anchored_iff)

lemma kc_block:
  assumes "\<And>d. steps_within same_run (inner d)"
      and "\<And>d. steps_within (confined d d) (inner d)"
  shows "steps_within (key_clean_from (tmp_dir E))
           (io_bind (mkdtemp E pre)
              (\<lambda>d. try_finally (inner d) (io_modify (\<lambda>w. w\<lparr>files := rmtree d (files w)\<rparr>))))"
  unfolding steps_within_def
proof (intro allI impI)
  fix w r w'
  assume "io_bind (mkdtemp E pre)
            (\<lambda>d. try_finally (inner d) (io_modify (\<lambda>w. w\<lparr>files := rmtree d (files w)\<rparr>))) w
          = (r, w')"
  then show "key_clean_from (tmp_dir E) w w'"
  proof (cases rule: io_bind_cases)
    case (1 e)
    then have "w' = w" by (auto elim: mkdtemp_cases)
    then show ?thesis by (simp add: key_clean_from_def key_clean_def)
  next
    case (2 d w1)
    let ?d = "tmp_dir E @ [pre @ tmp_name E]"
    from 2(1) obtain f where d: "d = ?d" and mk: "mkdir ?d (files w) = Inr f"
      and w1: "w1 = w\<lparr>files := f, workspaces := workspaces w @ [?d]\<rparr>"
      by (auto elim!: mkdtemp_cases)
    from mk have free: "files w ?d = None" and f: "f = (files w)(?d \<mapsto> Dir)"
      by (auto simp: mkdir_def split: if_splits)
    obtain r2 w2 where i: "inner d w1 = (r2, w2)" by (cases "inner d w1")
    from i assms(1) have "same_run w1 w2" by (auto simp: steps_within_def)
    then have ws2: "workspaces w2 = workspaces w @ [?d]" using w1 by (simp add: same_run_def)
    from i assms(2) have c: "confined ?d ?d w1 w2" by (auto simp: steps_within_def d)
    from 2(2) i have w': "w' = w2\<lparr>files := rmtree d (files w2)\<rparr>"
      by (simp add: try_finally_def io_modify_def)
    show ?thesis
      unfolding key_clean_from_def
    proof
      assume anc: "anchored (tmp_dir E) (files w)"
      have "anchored ?d (files w1)" using anchored_child[OF anc free] by (simp add: w1 f)
      with c have out: "outside_same ?d (files w1) (files w2)" by (simp add: confined_def)
      from c obtain new where new: "key_writes w2 = key_writes w1 @ new" "list_all (prefix ?d) new"
        by (auto simp: confined_def)
      have k: "key_writes w' = key_writes w @ new" using new(1) w' w1 by simp
      have "list_all (\<lambda>p. files w' p = None \<and> list_ex (\<lambda>d. prefix d p) (workspaces w')) new"
        using new(2) ws2 by (auto simp: list_all_iff list_ex_iff w' d rmtree_def)
      moreover have "files w q = Some n" if "files w' q = Some n" for q n
      proof -
        from that have np: "\<not> prefix ?d q" and "files w2 q = Some n"
          by (auto simp: w' d rmtree_def split: if_splits)
        with out have "files w1 q = Some n" by (simp add: outside_same_def)
        moreover from np have "q \<noteq> ?d" by auto
        ultimately show ?thesis by (simp add: w1 f)
      qed
      ultimately show "key_clean w w'" using k by (auto simp: key_clean_def)
    qed
  qed
qed

lemma kc_return: "steps_within (key_clean_from t) (io_return a)"
  by (auto simp: steps_within_def io_return_def key_clean_from_def key_clean_def)

lemma kc_ansible_deploy:
  "steps_within (key_clean_from (tmp_dir E)) (ansible_deploy E sn jt s au)"
  unfolding ansible_deploy_def
  by (intro kc_bind kc_block sw_lift[OF ubc_reflp] ubc_get_json_secret sr_in_workspace
        cf_in_workspace)

lemma kc_ansible_handler:
  "steps_within (key_clean_from (tmp_dir E)) (ansible_lambda_handler E event)"
proof -
  have body: "steps_within (key_clean_from (tmp_dir E))
       (io_bind (io_lift (ansible_request_body E event))
         (\<lambda>payload. io_bind (io_lift (py_get payload ''service_name'' PNone))
           (\<lambda>service_name. io_bind (io_lift (py_get payload ''jar_timestamp'' PNone))
             (\<lambda>jar_timestamp. io_bind (io_lift (py_get payload ''site'' (PStr ''sit1'')))
               (\<lambda>site_value. io_bind (io_lift (py_lower site_value))
                 (\<lambda>site. io_bind (io_lift (py_get payload ''app_user'' (PStr ''appadm'')))
                   (\<lambda>app_user.
                      if \<not> truthy service_name \<or> \<not> truthy jar_timestamp
                      then io_return
                             \<lparr>statusCode = 400,
                              body = [(''error'',
                                       PStr ''service_name and jar_timestamp required'')]\<rparr>
                      else ansible_deploy E service_name jar_timestamp site app_user)))))))"
    by (intro kc_bind sw_if kc_return kc_ansible_deploy sw_lift[OF ubc_reflp])
  show ?thesis
    unfolding ansible_lambda_handler_def steps_within_def
    using body
    by (auto simp: try_except_def steps_within_def io_return_def split: prod.splits sum.splits)
qed

text \<open>
  In ansible\_lambda.py, when the temporary directory and its ancestors exist, every path
  the key is written to lies under the work directory of the run and holds nothing when
  the handler returns, and the handler leaves no file that was not there before.
\<close>

lemma ansible_key_only_in_workspace:
  assumes "anchored (tmp_dir E) (files w)"
  shows "key_clean w (snd (ansible_lambda_handler E event w))"
  using assms kc_ansible_handler[of E event]
  by (cases "ansible_lambda_handler E event w") (auto simp: steps_within_def key_clean_from_def)

text \<open>
  C3 fails in deployment\_lambda.py. The claim: the SSH private key is written to disk
  only at a path inside the work directory of the run, so that nothing of it is left
  once the work directory is removed. \<open>setup_ssh_key\<close> writes the key to
  \<open>~/.ssh/id_rsa\<close>, which is not under the work directory, and \<open>cleanup\<close> removes
  the work directory only: after the sample run the key file is still there.
\<close>

theorem key_left_outside_workspace:
  "key_writes (snd (deployment_lambda_handler sample_env sample_event sample_world))
     = [[''home'', ''user'', ''.ssh'', ''id_rsa'']]
   \<and> workspaces (snd (deployment_lambda_handler sample_env sample_event sample_world))
     = [[''tmp'', ''ansible_deploy_k3x9'']]
   \<and> files (snd (deployment_lambda_handler sample_env sample_event sample_world))
         [''home'', ''user'', ''.ssh'', ''id_rsa''] = Some (File ''hello'' 384)"
  by code_simp

section \<open>Extra variables on the command line\<close>

lemma flag_value_not_flag: "k @ ''='' @ x \<noteq> ''-e''"
proof
  assume "k @ ''='' @ x = ''-e''"
  then have "CHR ''='' \<in> set ''-e''" by (metis in_set_conv_decomp append_Cons append_Nil)
  then show False by simp
qed

lemma extra_args_filter:
  "extra_args E extra =
     concat (map (\<lambda>(k, v). [''-e'', k @ ''='' @ format_value E v])
                 (filter (\<lambda>(k, v). v \<noteq> PNone) extra))"
  by (induction extra) auto

lemma count_extra_args:
  "count_list (extra_args E extra) ''-e'' = length (filter (\<lambda>(k, v). v \<noteq> PNone) extra)"
proof (induction extra)
  case Nil
  then show ?case by simp
next
  case (Cons a extra)
  obtain k v where a: "a = (k, v)" by (cases a)
  show ?case using Cons flag_value_not_flag[of k "format_value E v"] by (simp add: a)
qed

lemma hosts_path_not_flag: "path_str (d @ [''hosts'']) \<noteq> ''-e''"
proof
  assume h: "path_str (d @ [''hosts'']) = ''-e''"
  have "path_str (d @ [''hosts'']) = path_str d @ ''/hosts''"
    by (simp add: path_str_def)
  with h have "length (path_str d @ ''/hosts'') = length ''-e''" by simp
  then show False by simp
qed

lemma count_playbook_cmd:
  "count_list (playbook_cmd E d extra) ''-e'' = length (filter (\<lambda>(k, v). v \<noteq> PNone) extra)"
  using hosts_path_not_flag[of d]
  by (simp add: playbook_cmd_def count_extra_args ssh_common_args_def)

text \<open>
  In ansible\_lambda.py the loop passes over \<open>None\<close> values: the command holds one
  \<open>-e\<close> pair for each entry whose value is not \<open>None\<close>, in order, and nothing for
  the others.
\<close>

lemma run_playbook_flags:
  "extra_args E extra =
     concat (map (\<lambda>(k, v). [''-e'', k @ ''='' @ format_value E v])
                 (filter (\<lambda>(k, v). v \<noteq> PNone) extra))
   \<and> count_list (playbook_cmd E d extra) ''-e''
       = length (filter (\<lambda>(k, v). v \<noteq> PNone) extra)"
  by (simp add: extra_args_filter count_playbook_cmd)

text \<open>
  C4 fails in deployment\_lambda.py. The claim: a mapping with \<open>N\<close> entries that are
  not null and \<open>M\<close> that are gives a command line with exactly \<open>N\<close> pairs of \<open>-e\<close>
  flags, and no argument renders a null value as \<open>None\<close>. The loop of
  \<open>execute_ansible_playbook\<close> has no test for \<open>None\<close>: with one entry that is not
  \<open>None\<close> and one that is, the command holds two pairs, the second with the text
  \<open>None\<close>.
\<close>

theorem deployment_renders_none:
  "deployment_cmd sample_env [''tmp'', ''w'', ''ansible'', ''hosts'']
       [(''service_name'', PStr ''svc1''), (''aws_access_key_id'', PNone)]
     = [''ansible-playbook'', ''-i'', ''/tmp/w/ansible/hosts'', ''main.yml'',
        ''--ssh-common-args'', ssh_common_args, ''-vvv'',
        ''-e'', ''service_name=svc1'', ''-e'', ''aws_access_key_id=None'']"
  by (simp add: deployment_cmd_def format_value_def path_str_def)

section \<open>Archives with unsafe entries\<close>

text \<open>
  C5 as stated fails. The claim: an archive with an entry whose path would leave the
  target directory is rejected with a \<open>BundleUnsafePath\<close> error, and no file is
  extracted outside the target directory. Neither module checks the names of an
  archive's entries, and no error is raised for such an entry: with an entry named
  \<open>../evil\<close> in the archive, staging returns the directory as usual, in both modules;
  \<open>extractall\<close> writes the entry under the target with the \<open>..\<close> dropped.
\<close>

theorem unsafe_entry_not_rejected:
  "zip_entries sample_env ''zipbytes'' = Inr [(''ansible/main.yml'', ''play''), (''../evil'', ''x'')]
   \<and> \<not> prefix [''tmp''] (walk [''tmp''] (split_on CHR ''/'' ''../evil''))
   \<and> fst (copy_embedded_ansible sample_env [''tmp''] sample_world) = Inr [''tmp'', ''ansible'']
   \<and> fst (download_ansible_package sample_env [''tmp''] (PStr ''playbooks'')
            (PStr ''ansible/ansible-playbooks.zip'') sample_world) = Inr [''tmp'', ''ansible'']
   \<and> files (snd (download_ansible_package sample_env [''tmp''] (PStr ''playbooks'')
            (PStr ''ansible/ansible-playbooks.zip'') sample_world)) [''tmp'', ''ansible'', ''evil'']
       = Some (File ''x'' 420)"
  by code_simp

text \<open>
  C5, amended. For every archive, with or without an entry that would leave the target
  directory, staging changes nothing outside the target directory, provided the
  work directory and its ancestors exist: \<open>shutil.unpack_archive\<close> passes over an entry
  whose name starts with \<open>/\<close> or contains \<open>..\<close>, and \<open>ZipFile.extractall\<close> drops the
  components \<open>..\<close> of a name. The archive is not rejected for such an entry.
\<close>

theorem extraction_stays_inside:
  assumes "anchored work_dir (files w)"
  shows "outside_same work_dir (files w) (files (snd (unpack_archive E bundle work_dir w)))
       \<and> outside_same work_dir (files w) (files (snd (copy_embedded_ansible E work_dir w)))
       \<and> outside_same (work_dir @ [''ansible'']) (files w)
            (files (snd (extractall E package_path (work_dir @ [''ansible'']) w)))
       \<and> outside_same work_dir (files w)
            (files (snd (download_ansible_package E work_dir bucket key w)))"
  using assms
  by (intro conjI steps_within_outside[OF cf_unpack_archive]
        steps_within_outside[OF cf_copy_embedded] steps_within_outside[OF cf_extractall]
        steps_within_outside[OF cf_download])

lemma sample_tmp_anchored: "anchored [''tmp''] (files sample_world)"
  by (simp add: anchored_def sample_world_def sample_files_def)

theorem extraction_stays_inside_witness:
  "files (snd (unpack_archive sample_env [''var'', ''task'', ''ansible_bundle.zip''] [''tmp'']
                 sample_world)) [''evil'']
     = None
   \<and> files (snd (download_ansible_package sample_env [''tmp''] (PStr ''playbooks'')
                   (PStr ''ansible/ansible-playbooks.zip'') sample_world)) [''evil'']
     = None"
proof -
  have n: "\<not> prefix [''tmp''] [''evil'']" by simp
  have s: "files sample_world [''evil''] = None"
    by (simp add: sample_world_def sample_files_def)
  show ?thesis
    using extraction_stays_inside[OF sample_tmp_anchored, of sample_env
            "[''var'', ''task'', ''ansible_bundle.zip'']" "[]" "PStr ''playbooks''"
            "PStr ''ansible/ansible-playbooks.zip''"] n s
    unfolding outside_same_def by metis
qed

section \<open>Requests without the required fields\<close>







section \<open>Decoding of secrets\<close>

text \<open>
  C7 as stated fails in deployment\_lambda.py. The claim: a payload is decoded from
  base64 only when the store returns it as a binary value, and a payload returned as
  text is used as it is. The parameter store returns text, and \<open>setup_ssh_key\<close>
  decodes that text from base64 whenever the attempt succeeds: the text \<open>aGVsbG8=\<close>
  is written to the key file as \<open>hello\<close>.
\<close>

theorem text_key_is_decoded:
  "files (snd (setup_ssh_key sample_env ''aGVsbG8='' sample_world))
       [''home'', ''user'', ''.ssh'', ''id_rsa'']
     = Some (File ''hello'' 384)"
  by code_simp

text \<open>
  C7, amended. In ansible\_lambda.py a secret is decoded from base64 only when the store
  returns it as \<open>SecretBinary\<close>; a \<open>SecretString\<close> is used as it is (for the key: a
  \<open>SecretString\<close> that is not empty). In deployment\_lambda.py the text of the key is
  decoded whenever the decoding succeeds, and used as it is only when the decoding
  raises.
\<close>

theorem secret_decoding:
  "(SecretString v1 = Some s1 \<longrightarrow> s1 \<noteq> [] \<longrightarrow> key_material_of E v1 = Inr s1)
   \<and> (SecretString v2 = None \<longrightarrow> SecretBinary v2 = Some b2 \<longrightarrow>
        key_material_of E v2 = b64decode_utf8 E b2)
   \<and> (get_secret_value E i3 = Inr v3 \<longrightarrow> SecretString v3 = Some s3 \<longrightarrow>
        fst (get_json_secret E i3 w) = json_loads E s3)
   \<and> (get_secret_value E i4 = Inr v4 \<longrightarrow> SecretString v4 = None \<longrightarrow> SecretBinary v4 = Some b4 \<longrightarrow>
        fst (get_json_secret E i4 w)
          = (case b64decode_utf8 E b4 of Inl e \<Rightarrow> Inl e | Inr t \<Rightarrow> json_loads E t))
   \<and> (b64decode_utf8 E c5 = Inr t5 \<longrightarrow> decode_if_base64 E c5 = t5)
   \<and> (b64decode_utf8 E c6 = Inl e6 \<longrightarrow> decode_if_base64 E c6 = c6)"
  by (auto simp: key_material_of_def get_json_secret_def secrets_get_def decode_if_base64_def
                 io_bind_def io_modify_def io_lift_def io_raise_def
           split: sum.splits)

theorem secret_decoding_witness:
  "key_material_of sample_env \<lparr>SecretString = Some ''KEY'', SecretBinary = None\<rparr> = Inr ''KEY''
   \<and> key_material_of sample_env \<lparr>SecretString = None, SecretBinary = Some ''aGVsbG8=''\<rparr>
       = Inr ''hello''
   \<and> fst (get_json_secret sample_env ''demoapp/vm/sit1'' sample_world)
       = json_loads sample_env ''record''
   \<and> fst (get_json_secret sample_env ''demoapp/vm/ssh-key'' sample_world)
       = json_loads sample_env ''hello''
   \<and> decode_if_base64 sample_env ''aGVsbG8='' = ''hello''
   \<and> decode_if_base64 sample_env ''-----BEGIN'' = ''-----BEGIN''"
  using secret_decoding[where E = sample_env
          and ?v1.0 = "\<lparr>SecretString = Some ''KEY'', SecretBinary = None\<rparr>" and ?s1.0 = "''KEY''"
          and ?v2.0 = "\<lparr>SecretString = None, SecretBinary = Some ''aGVsbG8=''\<rparr>"
          and ?b2.0 = "''aGVsbG8=''"
          and ?i3.0 = "''demoapp/vm/sit1''"
          and ?v3.0 = "\<lparr>SecretString = Some ''record'', SecretBinary = None\<rparr>"
          and ?s3.0 = "''record''"
          and ?i4.0 = "''demoapp/vm/ssh-key''"
          and ?v4.0 = "\<lparr>SecretString = None, SecretBinary = Some ''aGVsbG8=''\<rparr>"
          and ?b4.0 = "''aGVsbG8=''"
          and ?c5.0 = "''aGVsbG8=''" and ?t5.0 = "''hello''"
          and ?c6.0 = "''-----BEGIN''" and ?e6.0 = "Exn DecodeError ''Incorrect padding''"
          and w = sample_world]
  by (simp add: sample_env_def)

section \<open>Truncation\<close>

text \<open>
  C8. Taking the trailing \<open>n\<close> characters of a string that is already a trailing-\<open>n\<close>
  tail gives the same string, for every string and every bound.
\<close>

theorem last_chars_idempotent: "last_chars n (last_chars n s) = last_chars n s"
  by (simp add: last_chars_def)

text \<open>
  The tail the handler reports (2000 or 4000 characters) of the tail the executor keeps
  (20000 characters) is the tail of the whole output.
\<close>

lemma tail_of_tail: "0 < m \<Longrightarrow> m \<le> n \<Longrightarrow> last_chars m (last_chars n s) = last_chars m s"
proof -
  assume "0 < m" and "m \<le> n"
  then have "length s - (length s - n + m) + (length s - n) = length s - m" by arith
  with \<open>0 < m\<close> \<open>m \<le> n\<close> show ?thesis by (simp add: last_chars_def)
qed

section \<open>The handler of ansible\_lambda.py always answers\<close>

lemma returns_in_workspace:
  "returns known_status
     (ansible_in_workspace E work_dir service_name jar_timestamp site app_user vm_host vm_user
        ds dbu dbp)"
  unfolding ansible_in_workspace_def Let_def
  by (intro returns_bind returns_if returns_return) (simp_all add: known_status_def)

lemma returns_deploy:
  "returns known_status (ansible_deploy E service_name jar_timestamp site app_user)"
  unfolding ansible_deploy_def
  by (intro returns_bind returns_try_finally returns_in_workspace)

lemma returns_handler_body:
  "returns known_status
       (io_bind (io_lift (ansible_request_body E event))
         (\<lambda>payload. io_bind (io_lift (py_get payload ''service_name'' PNone))
           (\<lambda>service_name. io_bind (io_lift (py_get payload ''jar_timestamp'' PNone))
             (\<lambda>jar_timestamp. io_bind (io_lift (py_get payload ''site'' (PStr ''sit1'')))
               (\<lambda>site_value. io_bind (io_lift (py_lower site_value))
                 (\<lambda>site. io_bind (io_lift (py_get payload ''app_user'' (PStr ''appadm'')))
                   (\<lambda>app_user.
                      if \<not> truthy service_name \<or> \<not> truthy jar_timestamp
                      then io_return
                             \<lparr>statusCode = 400,
                              body = [(''error'',
                                       PStr ''service_name and jar_timestamp required'')]\<rparr>
                      else ansible_deploy E service_name jar_timestamp site app_user)))))))"
  by (intro returns_bind returns_if returns_return returns_deploy) (simp add: known_status_def)

text \<open>
  C9. Whatever the event and the environment, \<open>lambda_handler\<close> of ansible\_lambda.py
  returns a response, and its status is 200, 400 or 500: every exception raised inside
  is caught by the outer \<open>except Exception\<close>.
\<close>

theorem ansible_handler_always_responds:
  "\<exists>resp w'. ansible_lambda_handler E event w = (Inr resp, w')
      \<and> (statusCode resp = 200 \<or> statusCode resp = 400 \<or> statusCode resp = 500)"
proof -
  let ?m = "(io_bind (io_lift (ansible_request_body E event))
         (\<lambda>payload. io_bind (io_lift (py_get payload ''service_name'' PNone))
           (\<lambda>service_name. io_bind (io_lift (py_get payload ''jar_timestamp'' PNone))
             (\<lambda>jar_timestamp. io_bind (io_lift (py_get payload ''site'' (PStr ''sit1'')))
               (\<lambda>site_value. io_bind (io_lift (py_lower site_value))
                 (\<lambda>site. io_bind (io_lift (py_get payload ''app_user'' (PStr ''appadm'')))
                   (\<lambda>app_user.
                      if \<not> truthy service_name \<or> \<not> truthy jar_timestamp
                      then io_return
                             \<lparr>statusCode = 400,
                              body = [(''error'',
                                       PStr ''service_name and jar_timestamp required'')]\<rparr>
                      else ansible_deploy E service_name jar_timestamp site app_user)))))))"
  obtain r w1 where run: "?m w = (r, w1)" by (cases "?m w")
  show ?thesis
  proof (cases r)
    case (Inl e)
    with run show ?thesis
      by (simp add: ansible_lambda_handler_def try_except_def io_return_def)
  next
    case (Inr a)
    with run returns_handler_body[of E event] have "known_status a"
      unfolding returns_def by blast
    with run Inr show ?thesis
      by (simp add: ansible_lambda_handler_def try_except_def known_status_def)
  qed
qed

text \<open>The theorem at an event that is not a dictionary.\<close>

theorem ansible_handler_always_responds_witness:
  "\<exists>resp w'. ansible_lambda_handler sample_env (PList []) sample_world = (Inr resp, w')
      \<and> (statusCode resp = 200 \<or> statusCode resp = 400 \<or> statusCode resp = 500)"
  using ansible_handler_always_responds[of sample_env "PList []" sample_world] .

section \<open>The case of the site\<close>










lemma direct_event_body:
  "map_of d ''body'' = None \<Longrightarrow> ansible_request_body E (PDict d) = Inr (PDict d)"
  "map_of d ''body'' = None \<Longrightarrow> deployment_request_body E (PDict d) = Inr (PDict d)"
  by (simp_all add: ansible_request_body_def deployment_request_body_def)



text \<open>The identifiers of the sample run.\<close>

lemma sample_identifiers:
  "secret_calls (snd (ansible_lambda_handler sample_env sample_event sample_world))
     = [''demoapp/vm/sit1'', ''demoapp/vm/ssh-key'']"
  by code_simp

end
